theory Spec2Isabelle
  imports Complex_Main
begin

section \<open>Floating-point values\<close>

text \<open>
  The arrays of \<^verbatim>\<open>compute_deviations.py\<close> hold IEEE floating-point numbers. A value
  is modelled as a finite number, one of the two infinities, or NaN. Finite values are
  exact reals: rounding and overflow of finite arithmetic are abstracted, the special
  values and the way they arise and propagate are kept. The sign of a zero is not
  kept; the only zero divisor the program ever divides by without a guard is a
  standard deviation, which is a positive zero, so \<open>x / 0\<close> takes the sign of \<open>x\<close>.
\<close>

datatype fp = Fin real | PInf | NInf | NaN

fun fneg :: "fp \<Rightarrow> fp" where
  "fneg (Fin a) = Fin (- a)"
| "fneg PInf = NInf"
| "fneg NInf = PInf"
| "fneg NaN = NaN"

fun fadd :: "fp \<Rightarrow> fp \<Rightarrow> fp" where
  "fadd (Fin a) (Fin b) = Fin (a + b)"
| "fadd NaN _ = NaN"
| "fadd _ NaN = NaN"
| "fadd PInf NInf = NaN"
| "fadd NInf PInf = NaN"
| "fadd PInf _ = PInf"
| "fadd _ PInf = PInf"
| "fadd NInf _ = NInf"
| "fadd _ NInf = NInf"

definition fsub :: "fp \<Rightarrow> fp \<Rightarrow> fp" where
  "fsub x y = fadd x (fneg y)"

text \<open>The infinity whose sign is that of a nonzero real.\<close>

definition inf_of_sign :: "real \<Rightarrow> fp" where
  "inf_of_sign a = (if 0 < a then PInf else NInf)"

fun fmul :: "fp \<Rightarrow> fp \<Rightarrow> fp" where
  "fmul (Fin a) (Fin b) = Fin (a * b)"
| "fmul NaN _ = NaN"
| "fmul _ NaN = NaN"
| "fmul (Fin a) PInf = (if a = 0 then NaN else inf_of_sign a)"
| "fmul (Fin a) NInf = (if a = 0 then NaN else inf_of_sign (- a))"
| "fmul PInf (Fin b) = (if b = 0 then NaN else inf_of_sign b)"
| "fmul NInf (Fin b) = (if b = 0 then NaN else inf_of_sign (- b))"
| "fmul PInf PInf = PInf"
| "fmul PInf NInf = NInf"
| "fmul NInf PInf = NInf"
| "fmul NInf NInf = PInf"

fun fdiv :: "fp \<Rightarrow> fp \<Rightarrow> fp" where
  "fdiv (Fin a) (Fin b) =
     (if b \<noteq> 0 then Fin (a / b) else if a = 0 then NaN else inf_of_sign a)"
| "fdiv NaN _ = NaN"
| "fdiv _ NaN = NaN"
| "fdiv (Fin a) PInf = Fin 0"
| "fdiv (Fin a) NInf = Fin 0"
| "fdiv PInf (Fin b) = (if 0 \<le> b then PInf else NInf)"
| "fdiv NInf (Fin b) = (if 0 \<le> b then NInf else PInf)"
| "fdiv PInf PInf = NaN"
| "fdiv PInf NInf = NaN"
| "fdiv NInf PInf = NaN"
| "fdiv NInf NInf = NaN"

fun fsqrt :: "fp \<Rightarrow> fp" where
  "fsqrt (Fin a) = (if 0 \<le> a then Fin (sqrt a) else NaN)"
| "fsqrt PInf = PInf"
| "fsqrt NInf = NaN"
| "fsqrt NaN = NaN"

text \<open>The comparisons \<^verbatim>\<open>x == 0\<close> and \<^verbatim>\<open>x != 0\<close>: NaN and the infinities differ from 0.\<close>

definition feq0 :: "fp \<Rightarrow> bool" where
  "feq0 x = (x = Fin 0)"

definition fne0 :: "fp \<Rightarrow> bool" where
  "fne0 x = (x \<noteq> Fin 0)"

definition is_finite :: "fp \<Rightarrow> bool" where
  "is_finite x = (case x of Fin _ \<Rightarrow> True | _ \<Rightarrow> False)"

text \<open>The largest finite and the smallest positive normal single-precision number.\<close>

definition flt_max :: real where
  "flt_max = 2 ^ 128 - 2 ^ 104"


text \<open>
  The sum of a sequence of values, starting from 0. In this model the result does not
  depend on the order of summation.
\<close>

definition fsum :: "fp list \<Rightarrow> fp" where
  "fsum xs = foldr fadd xs (Fin 0)"

section \<open>Exceptions and two-dimensional arrays\<close>

datatype pyerr =
    TypeError string
  | AssertionError string
  | KeyError string
  | ValueError
  | IndexError
  | ZeroDivisionError
  | RuntimeError

text \<open>
  A two-dimensional array carries its shape, as an \<^verbatim>\<open>ndarray\<close> or a tensor does (an
  array with no rows still has a number of columns), and its rows. A sparse matrix is
  represented by its dense contents, so \<^verbatim>\<open>todense\<close> is the identity.
\<close>

datatype 'a mat = Mat (nrows: nat) (ncols: nat) (rows: "'a list list")

definition wf_mat :: "'a mat \<Rightarrow> bool" where
  "wf_mat A = (length (rows A) = nrows A \<and> list_all (\<lambda>r. length r = ncols A) (rows A))"

definition entry :: "'a mat \<Rightarrow> nat \<Rightarrow> nat \<Rightarrow> 'a" where
  "entry A i j = rows A ! i ! j"

definition tabulate :: "nat \<Rightarrow> nat \<Rightarrow> (nat \<Rightarrow> nat \<Rightarrow> 'a) \<Rightarrow> 'a mat" where
  "tabulate r c f = Mat r c (map (\<lambda>i. map (\<lambda>j. f i j) [0..<c]) [0..<r])"

definition zeros :: "nat \<Rightarrow> nat \<Rightarrow> fp mat" where
  "zeros r c = tabulate r c (\<lambda>i j. Fin 0)"

text \<open>
  Broadcasting of one axis: two lengths are compatible when they are equal or one of
  them is 1; an axis of length 1 is read at index 0 whatever the index.
\<close>

definition bdim :: "nat \<Rightarrow> nat \<Rightarrow> nat option" where
  "bdim a b = (if a = b then Some a else if a = 1 then Some b else if b = 1 then Some a else None)"

definition bat :: "'a mat \<Rightarrow> nat \<Rightarrow> nat \<Rightarrow> 'a" where
  "bat A i j = entry A (if nrows A = 1 then 0 else i) (if ncols A = 1 then 0 else j)"

text \<open>An elementwise binary operation with broadcasting; \<open>err\<close> is what the library raises
  on incompatible shapes.\<close>

definition ew2 :: "pyerr \<Rightarrow> ('a \<Rightarrow> 'b \<Rightarrow> 'c) \<Rightarrow> 'a mat \<Rightarrow> 'b mat \<Rightarrow> pyerr + 'c mat" where
  "ew2 err f A B =
     (case (bdim (nrows A) (nrows B), bdim (ncols A) (ncols B)) of
        (Some r, Some c) \<Rightarrow> Inr (tabulate r c (\<lambda>i j. f (bat A i j) (bat B i j)))
      | _ \<Rightarrow> Inl err)"

text \<open>The matrix product of two two-dimensional arrays (\<^verbatim>\<open>a.dot(b)\<close>, \<^verbatim>\<open>torch.matmul\<close>).\<close>

definition mat_product :: "fp mat \<Rightarrow> fp mat \<Rightarrow> fp mat" where
  "mat_product A B =
     tabulate (nrows A) (ncols B)
       (\<lambda>i j. fsum (map (\<lambda>k. fmul (entry A i k) (entry B k j)) [0..<ncols A]))"

definition matmul :: "pyerr \<Rightarrow> fp mat \<Rightarrow> fp mat \<Rightarrow> pyerr + fp mat" where
  "matmul err A B = (if ncols A \<noteq> nrows B then Inl err else Inr (mat_product A B))"

definition bind_res :: "'e + 'a \<Rightarrow> ('a \<Rightarrow> 'e + 'b) \<Rightarrow> 'e + 'b" where
  "bind_res m f = (case m of Inl e \<Rightarrow> Inl e | Inr v \<Rightarrow> f v)"

section \<open>The deviation primitive\<close>

text \<open>
  \<^verbatim>\<open>np.divide(x1, x2, out=out, where=w)\<close>: the operands are broadcast against each other;
  \<open>out\<close> must have the broadcast shape; where \<open>w\<close> holds the quotient is stored, elsewhere
  \<open>out\<close> keeps its entry.
\<close>

definition np_divide_where :: "fp mat \<Rightarrow> fp mat \<Rightarrow> fp mat \<Rightarrow> bool mat \<Rightarrow> pyerr + fp mat" where
  "np_divide_where x1 x2 out w =
     (case (bdim (nrows x1) (nrows x2), bdim (ncols x1) (ncols x2)) of
        (Some r, Some c) \<Rightarrow>
          (case (bdim r (nrows w), bdim c (ncols w)) of
             (Some r', Some c') \<Rightarrow>
               if r' = nrows out \<and> c' = ncols out
               then Inr (tabulate r' c'
                      (\<lambda>i j. if bat w i j then fdiv (bat x1 i j) (bat x2 i j) else entry out i j))
               else Inl ValueError
           | _ \<Rightarrow> Inl ValueError)
      | _ \<Rightarrow> Inl ValueError)"

text \<open>The source's \<^verbatim>\<open>_compute_deviations\<close>, the host variant.\<close>

definition compute_deviations_host ::
  "fp mat \<times> fp mat \<times> fp mat \<times> fp mat \<Rightarrow> pyerr + fp mat" where
  "compute_deviations_host arguments =
     (case arguments of (motif_match, count, expectation_obs, expectation_var) \<Rightarrow>
        bind_res (matmul ValueError count motif_match) (\<lambda>observed.
        bind_res (matmul ValueError expectation_var motif_match) (\<lambda>ev_match.
        bind_res (matmul ValueError expectation_obs ev_match) (\<lambda>expected.
        let out = zeros (nrows expected) (ncols expected) in
        bind_res (ew2 ValueError fsub observed expected) (\<lambda>diff.
        np_divide_where diff expected out
          (tabulate (nrows expected) (ncols expected) (\<lambda>i j. fne0 (entry expected i j))))))))"

text \<open>
  \<^verbatim>\<open>torch.div(x1, x2, out=out)\<close> stores the broadcast quotient in \<open>out\<close>, which is resized
  to the shape of the result. \<^verbatim>\<open>out[mask] = 0\<close> needs a mask of the shape of \<open>out\<close>.
\<close>

definition torch_div_out :: "fp mat \<Rightarrow> fp mat \<Rightarrow> fp mat \<Rightarrow> pyerr + fp mat" where
  "torch_div_out x1 x2 out = ew2 RuntimeError fdiv x1 x2"

definition masked_zero :: "fp mat \<Rightarrow> bool mat \<Rightarrow> pyerr + fp mat" where
  "masked_zero out msk =
     (if nrows msk = nrows out \<and> ncols msk = ncols out
      then Inr (tabulate (nrows out) (ncols out)
              (\<lambda>i j. if entry msk i j then Fin 0 else entry out i j))
      else Inl IndexError)"

text \<open>The source's \<^verbatim>\<open>_compute_deviations_gpu\<close>, the accelerator variant.\<close>

definition compute_deviations_gpu ::
  "fp mat \<times> fp mat \<times> fp mat \<times> fp mat \<Rightarrow> pyerr + fp mat" where
  "compute_deviations_gpu arguments =
     (case arguments of (motif_match, count, expectation_obs, expectation_var) \<Rightarrow>
        bind_res (matmul RuntimeError count motif_match) (\<lambda>observed.
        bind_res (matmul RuntimeError expectation_var motif_match) (\<lambda>ev_match.
        bind_res (matmul RuntimeError expectation_obs ev_match) (\<lambda>expected.
        let out = zeros (nrows expected) (ncols expected) in
        bind_res (ew2 RuntimeError fsub observed expected) (\<lambda>diff.
        bind_res (torch_div_out diff expected out) (\<lambda>out.
        masked_zero out
          (tabulate (nrows expected) (ncols expected) (\<lambda>i j. feq0 (entry expected i j)))))))))"

section \<open>Facts about arrays\<close>

lemma nrows_tabulate [simp]: "nrows (tabulate r c f) = r"
  by (simp add: tabulate_def)

lemma ncols_tabulate [simp]: "ncols (tabulate r c f) = c"
  by (simp add: tabulate_def)

lemma entry_tabulate [simp]: "i < r \<Longrightarrow> j < c \<Longrightarrow> entry (tabulate r c f) i j = f i j"
  by (simp add: tabulate_def entry_def)

lemma bat_eq_entry: "i < nrows A \<Longrightarrow> j < ncols A \<Longrightarrow> bat A i j = entry A i j"
  by (auto simp: bat_def)

lemma tabulate_cong:
  "(\<And>i j. i < r \<Longrightarrow> j < c \<Longrightarrow> f i j = g i j) \<Longrightarrow> tabulate r c f = tabulate r c g"
  by (simp add: tabulate_def)

lemma nrows_mat_product [simp]: "nrows (mat_product A B) = nrows A"
  by (simp add: mat_product_def)

lemma ncols_mat_product [simp]: "ncols (mat_product A B) = ncols B"
  by (simp add: mat_product_def)

lemma bdim_same [simp]: "bdim a a = Some a"
  by (simp add: bdim_def)

section \<open>The deviation primitive: guarded division and the two variants\<close>

text \<open>
  The entry of the deviation at one (cell, feature) position, from the observed and the
  expected value there: 0 where the expected value is 0, the relative difference
  elsewhere.
\<close>

definition guarded_deviation :: "fp \<Rightarrow> fp \<Rightarrow> fp" where
  "guarded_deviation observed expected =
     (if expected = Fin 0 then Fin 0 else fdiv (fsub observed expected) expected)"

lemma compute_deviations_host_shaped:
  assumes "ncols C = nrows M" "ncols ev = nrows M" "ncols eo = nrows ev" "nrows eo = nrows C"
  shows "compute_deviations_host (M, C, eo, ev) =
     Inr (tabulate (nrows C) (ncols M) (\<lambda>i j.
        guarded_deviation (entry (mat_product C M) i j)
          (entry (mat_product eo (mat_product ev M)) i j)))"
  using assms
  by (auto simp: compute_deviations_host_def bind_res_def matmul_def ew2_def
        np_divide_where_def Let_def zeros_def fne0_def bat_eq_entry guarded_deviation_def
      intro!: tabulate_cong)

lemma compute_deviations_gpu_shaped:
  assumes "ncols C = nrows M" "ncols ev = nrows M" "ncols eo = nrows ev" "nrows eo = nrows C"
  shows "compute_deviations_gpu (M, C, eo, ev) =
     Inr (tabulate (nrows C) (ncols M) (\<lambda>i j.
        guarded_deviation (entry (mat_product C M) i j)
          (entry (mat_product eo (mat_product ev M)) i j)))"
  using assms
  by (auto simp: compute_deviations_gpu_def bind_res_def matmul_def ew2_def torch_div_out_def
        masked_zero_def Let_def zeros_def feq0_def bat_eq_entry guarded_deviation_def
      intro!: tabulate_cong)

text \<open>
  C1. In both variants of the deviation primitive, on arguments whose shapes fit (the
  count chunk and the per-cell expectation have the same number of rows, and the inner
  dimensions of the three products agree), a result is returned, and its entry at every
  (cell, feature) position is exactly 0 where the expected value is 0 and
  (observed - expected) / expected where it is not.
\<close>

theorem deviation_zero_guard:
  assumes "ncols count = nrows motif_match"
    and "ncols expectation_var = nrows motif_match"
    and "ncols expectation_obs = nrows expectation_var"
    and "nrows expectation_obs = nrows count"
    and "i < nrows count" and "j < ncols motif_match"
  shows "\<exists>D D'.
      compute_deviations_host (motif_match, count, expectation_obs, expectation_var) = Inr D
    \<and> compute_deviations_gpu (motif_match, count, expectation_obs, expectation_var) = Inr D'
    \<and> (let observed = entry (mat_product count motif_match) i j;
            expected = entry (mat_product expectation_obs
                                (mat_product expectation_var motif_match)) i j
        in entry D i j = (if expected = Fin 0 then Fin 0
                          else fdiv (fsub observed expected) expected)
         \<and> entry D' i j = entry D i j)"
  using assms
  by (simp add: compute_deviations_host_shaped compute_deviations_gpu_shaped
        guarded_deviation_def Let_def)

theorem deviation_zero_guard_witness:
  "let motif_match = Mat 2 2 [[Fin 1, Fin 0], [Fin 0, Fin 0]];
       count = Mat 2 2 [[Fin 1, Fin 0], [Fin 0, Fin 1]];
       expectation_obs = Mat 2 1 [[Fin 1], [Fin 1]];
       expectation_var = Mat 1 2 [[Fin (1/2), Fin (1/2)]]
   in ncols count = nrows motif_match
    \<and> ncols expectation_var = nrows motif_match
    \<and> ncols expectation_obs = nrows expectation_var
    \<and> nrows expectation_obs = nrows count
    \<and> (1::nat) < nrows count \<and> (1::nat) < ncols motif_match
    \<and> entry (mat_product expectation_obs (mat_product expectation_var motif_match)) 1 1 = Fin 0
    \<and> (\<exists>D D'.
          compute_deviations_host (motif_match, count, expectation_obs, expectation_var) = Inr D
        \<and> compute_deviations_gpu (motif_match, count, expectation_obs, expectation_var) = Inr D'
        \<and> entry D 1 1 = Fin 0 \<and> entry D' 1 1 = Fin 0)"
  using deviation_zero_guard [of "Mat 2 2 [[Fin 1, Fin 0], [Fin 0, Fin 1]]"
      "Mat 2 2 [[Fin 1, Fin 0], [Fin 0, Fin 0]]" "Mat 1 2 [[Fin (1/2), Fin (1/2)]]"
      "Mat 2 1 [[Fin 1], [Fin 1]]" 1 1]
  by (auto simp: Let_def mat_product_def tabulate_def entry_def fsum_def upt_conv_Cons)


section \<open>The expectation estimator\<close>

text \<open>
  The source's \<^verbatim>\<open>compute_expectation\<close>: the column sums scaled by their total, and the
  row sums. With \<^verbatim>\<open>return_torch\<close> the same two arrays are placed on the device. In the
  source both arrays are cast to single precision and the scaling is done in single
  precision; as everywhere in this model the rounding of these steps is abstracted, so
  a value computed here is the value of the source up to single-precision rounding, and
  only as long as no sum leaves the range of single precision.
\<close>

definition compute_expectation :: "fp mat \<Rightarrow> bool \<Rightarrow> fp mat \<times> fp mat" where
  "compute_expectation count return_torch =
     (let a = tabulate 1 (ncols count)
                (\<lambda>_ j. fsum (map (\<lambda>i. entry count i j) [0..<nrows count]));
          s = fsum (concat (rows a));
          a = tabulate (nrows a) (ncols a) (\<lambda>i j. fdiv (entry a i j) s);
          b = tabulate (nrows count) 1
                (\<lambda>i _. fsum (map (\<lambda>j. entry count i j) [0..<ncols count]))
      in if return_torch then (b, a) else (b, a))"




lemma fsum_Nil [simp]: "fsum [] = Fin 0" by (simp add: fsum_def)
lemma fsum_Cons [simp]: "fsum (x # xs) = fadd x (fsum xs)" by (simp add: fsum_def)

lemma fsum_Fin: "fsum (map Fin xs) = Fin (sum_list xs)"
  by (induction xs) auto


lemma wf_tabulate [simp]: "wf_mat (tabulate r c f)"
  by (simp add: wf_mat_def tabulate_def list_all_iff)

lemma rows_tabulate_one [simp]: "rows (tabulate (Suc 0) c f) = [map (f 0) [0..<c]]"
  by (simp add: tabulate_def)





lemma fadd_Fin_zero [simp]: "fadd (Fin 0) z = z"
  by (cases z) simp_all










section \<open>Background statistics and normalisation\<close>

text \<open>
  \<^verbatim>\<open>np.mean\<close> and \<^verbatim>\<open>torch.mean\<close> divide the sum by the number of values. \<^verbatim>\<open>np.std\<close>
  (default \<^verbatim>\<open>ddof=0\<close>) is the square root of the mean of the squared differences from the
  mean. \<^verbatim>\<open>torch.std\<close> (default: unbiased, correction 1) divides the sum of the squared
  differences by \<open>max 0 (n - 1)\<close> instead. In the source these reductions accumulate in
  single precision; here they are exact. Over one value both agree exactly: the mean is
  the value and \<^verbatim>\<open>np.std\<close> is 0. Over several equal values the source's mean need not be
  that value nor its standard deviation 0, so nothing is claimed from such an
  exact cancellation.
\<close>

definition np_mean :: "fp list \<Rightarrow> fp" where
  "np_mean xs = fdiv (fsum xs) (Fin (real (length xs)))"

definition np_std :: "fp list \<Rightarrow> fp" where
  "np_std xs =
     (let m = np_mean xs
      in fsqrt (np_mean (map (\<lambda>x. let d = fsub x m in fmul d d) xs)))"

definition torch_mean :: "fp list \<Rightarrow> fp" where
  "torch_mean xs = fdiv (fsum xs) (Fin (real (length xs)))"

definition torch_std :: "fp list \<Rightarrow> fp" where
  "torch_std xs =
     (let m = torch_mean xs
      in fsqrt (fdiv (fsum (map (\<lambda>x. let d = fsub x m in fmul d d) xs))
                     (Fin (real (length xs - 1)))))"

text \<open>
  A reduction over axis 0 of a three-dimensional array of shape (length T, n, L), held
  as the list of its (n, L) slices.
\<close>

definition reduce_axis0 :: "(fp list \<Rightarrow> fp) \<Rightarrow> nat \<Rightarrow> nat \<Rightarrow> fp mat list \<Rightarrow> fp mat" where
  "reduce_axis0 g n L T = tabulate n L (\<lambda>c f. g (map (\<lambda>B. entry B c f) T))"

text \<open>
  \<^verbatim>\<open>np.nan_to_num(dev, 0)\<close>: the second positional parameter is \<^verbatim>\<open>copy\<close>; \<^verbatim>\<open>nan\<close>, \<^verbatim>\<open>posinf\<close>
  and \<^verbatim>\<open>neginf\<close> keep their defaults, so NaN becomes 0 and an infinity becomes the
  largest finite number of its sign.
\<close>

fun nan_to_num :: "fp \<Rightarrow> fp" where
  "nan_to_num (Fin a) = Fin a"
| "nan_to_num NaN = Fin 0"
| "nan_to_num PInf = Fin flt_max"
| "nan_to_num NInf = Fin (- flt_max)"

definition map_mat :: "('a \<Rightarrow> 'b) \<Rightarrow> 'a mat \<Rightarrow> 'b mat" where
  "map_mat g A = tabulate (nrows A) (ncols A) (\<lambda>i j. g (entry A i j))"

text \<open>
  Lines 79 to 91 of \<^verbatim>\<open>compute_deviations\<close>: the mean and the standard deviation of the
  background deviations over the samples, and the normalised deviations.
\<close>

definition background_stats :: "bool \<Rightarrow> nat \<Rightarrow> nat \<Rightarrow> fp mat list \<Rightarrow> fp mat \<times> fp mat" where
  "background_stats gpu n L bg_dev =
     (if gpu then (reduce_axis0 torch_mean n L bg_dev, reduce_axis0 torch_std n L bg_dev)
      else (reduce_axis0 np_mean n L bg_dev, reduce_axis0 np_std n L bg_dev))"

definition normalise :: "bool \<Rightarrow> nat \<Rightarrow> nat \<Rightarrow> fp mat \<Rightarrow> fp mat list \<Rightarrow> pyerr + fp mat" where
  "normalise gpu n L obs_dev bg_dev =
     (case background_stats gpu n L bg_dev of (mean_bg_dev, std_bg_dev) \<Rightarrow>
        let err = (if gpu then RuntimeError else ValueError) in
        bind_res (ew2 err fsub obs_dev mean_bg_dev) (\<lambda>centred.
        bind_res (ew2 err fdiv centred std_bg_dev) (\<lambda>dev.
        Inr (map_mat nan_to_num dev))))"

text \<open>The population standard deviation, as the specification words it: divide by n.\<close>

definition population_std :: "fp list \<Rightarrow> fp" where
  "population_std xs =
     fsqrt (fdiv (fsum (map (\<lambda>x. fmul (fsub x (np_mean xs)) (fsub x (np_mean xs))) xs))
                 (Fin (real (length xs))))"

section \<open>The input object and the chunked run\<close>

text \<open>
  The fields of an \<^verbatim>\<open>AnnData\<close> object that the program reads. \<^verbatim>\<open>varm\<close> and \<^verbatim>\<open>uns\<close> are
  dictionaries; the three keys looked up are optional fields here, \<open>None\<close> when the key
  is absent. \<^verbatim>\<open>matrix_X\<close> is the count matrix \<^verbatim>\<open>adata.X\<close>.
\<close>

record anndata =
  matrix_X :: "fp mat"
  obs_names :: "string list"
  varm_bg_peaks :: "int mat option"
  varm_motif_match :: "fp mat option"
  uns_motif_name :: "string list option"

datatype pydata = AnnDataObj anndata | MuDataObj "string \<rightharpoonup> anndata" | OtherObj

text \<open>The returned \<^verbatim>\<open>AnnData\<close>: the matrix and its row and column labels.\<close>

record deviations =
  dev_X :: "fp mat"
  dev_obs_names :: "string list"
  dev_var_names :: "string list"

definition n_obs :: "anndata \<Rightarrow> nat" where
  "n_obs adata = nrows (matrix_X adata)"

text \<open>The row slice \<^verbatim>\<open>A[start:end]\<close> (both bounds are clipped to the number of rows).\<close>

definition slice_rows :: "'a mat \<Rightarrow> nat \<Rightarrow> nat \<Rightarrow> 'a mat" where
  "slice_rows A start en =
     tabulate (min en (nrows A) - min start (nrows A)) (ncols A) (\<lambda>i j. entry A (start + i) j)"

text \<open>
  The slice assignment \<^verbatim>\<open>A[start:end, :] = R\<close>: \<open>R\<close> is broadcast to the shape of the
  slice; \<open>err\<close> is raised when it cannot be.
\<close>

definition assign_rows :: "pyerr \<Rightarrow> 'a mat \<Rightarrow> nat \<Rightarrow> nat \<Rightarrow> 'a mat \<Rightarrow> pyerr + 'a mat" where
  "assign_rows err A start en R =
     (let e = min en (nrows A); h = e - min start (nrows A)
      in if (nrows R = h \<or> nrows R = 1) \<and> (ncols R = ncols A \<or> ncols R = 1)
         then Inr (tabulate (nrows A) (ncols A)
                (\<lambda>i j. if start \<le> i \<and> i < e then bat R (i - start) j else entry A i j))
         else Inl err)"

text \<open>Column \<open>i\<close> of an index matrix, \<^verbatim>\<open>B[:, i]\<close>.\<close>

definition column :: "'a mat \<Rightarrow> nat \<Rightarrow> 'a list" where
  "column B i = map (\<lambda>r. entry B r i) [0..<nrows B]"

text \<open>
  Row selection by an index array, \<^verbatim>\<open>A[idx, :]\<close>: a negative index counts from the end,
  an index out of range raises \<^verbatim>\<open>IndexError\<close>.
\<close>

definition selected_rows :: "'a mat \<Rightarrow> int list \<Rightarrow> 'a mat" where
  "selected_rows A idx =
     tabulate (length idx) (ncols A)
       (\<lambda>i j. entry A (nat (if idx ! i < 0 then idx ! i + int (nrows A) else idx ! i)) j)"

definition take_rows :: "'a mat \<Rightarrow> int list \<Rightarrow> pyerr + 'a mat" where
  "take_rows A idx =
     (if list_all (\<lambda>k. - int (nrows A) \<le> k \<and> k < int (nrows A)) idx
      then Inr (selected_rows A idx)
      else Inl IndexError)"

text \<open>
  \<^verbatim>\<open>AnnData.chunked_X(chunk_size)\<close> of the anndata library: \<open>n_obs // chunk_size\<close> chunks of
  \<open>chunk_size\<close> rows, then the remaining rows if there are any. Each item is the row
  slice with its bounds.
\<close>

fun full_chunks :: "nat \<Rightarrow> nat \<Rightarrow> nat \<Rightarrow> (nat \<times> nat) list \<times> nat" where
  "full_chunks 0 start k = ([], start)"
| "full_chunks (Suc c) start k =
     (case full_chunks c (start + k) k of (cs, s) \<Rightarrow> ((start, start + k) # cs, s))"

definition chunk_ranges :: "nat \<Rightarrow> int \<Rightarrow> pyerr + (nat \<times> nat) list" where
  "chunk_ranges n chunk_size =
     (if chunk_size = 0 then Inl ZeroDivisionError
      else case full_chunks (nat (int n div chunk_size)) 0 (nat chunk_size) of
             (cs, start) \<Rightarrow> Inr (cs @ (if start < n then [(start, n)] else [])))"

definition chunked_X :: "anndata \<Rightarrow> int \<Rightarrow> pyerr + (fp mat \<times> nat \<times> nat) list" where
  "chunked_X adata chunk_size =
     bind_res (chunk_ranges (n_obs adata) chunk_size) (\<lambda>cs.
       Inr (map (\<lambda>(start, en). (slice_rows (matrix_X adata) start en, start, en)) cs))"

text \<open>A loop whose body may raise: the first exception ends it.\<close>

fun foldM :: "('s \<Rightarrow> 'a \<Rightarrow> pyerr + 's) \<Rightarrow> 's \<Rightarrow> 'a list \<Rightarrow> pyerr + 's" where
  "foldM f s [] = Inr s"
| "foldM f s (x # xs) = (case f s x of Inl e \<Rightarrow> Inl e | Inr s' \<Rightarrow> foldM f s' xs)"

text \<open>
  The state of the run: the two accumulators \<^verbatim>\<open>obs_dev\<close> and \<^verbatim>\<open>bg_dev\<close> (the latter as
  the list of its slices along axis 0), and a record of the slice assignments executed
  so far. The record is not a variable of the source; it is kept so that properties of
  the sequence of assignments can be stated.
\<close>

datatype slice_write = ObsWrite nat nat | BgWrite nat nat nat

type_synonym run_state = "fp mat \<times> fp mat list \<times> slice_write list"

definition deviation_primitive :: "bool \<Rightarrow> fp mat \<times> fp mat \<times> fp mat \<times> fp mat \<Rightarrow> pyerr + fp mat" where
  "deviation_primitive gpu =
     (if gpu then compute_deviations_gpu else compute_deviations_host)"

definition shape_error :: "bool \<Rightarrow> pyerr" where
  "shape_error gpu = (if gpu then RuntimeError else ValueError)"

text \<open>The body of the inner loop (lines 70 to 78), for background sample \<open>i\<close>.\<close>

definition process_bg ::
  "bool \<Rightarrow> int mat \<Rightarrow> fp mat \<Rightarrow> fp mat \<Rightarrow> fp mat \<Rightarrow> fp mat \<Rightarrow> nat \<Rightarrow> nat \<Rightarrow>
   fp mat list \<times> slice_write list \<Rightarrow> nat \<Rightarrow> pyerr + fp mat list \<times> slice_write list" where
  "process_bg gpu bg_peaks motif_match Xc eo expectation_var start en st i =
     (case st of (bg_dev, writes) \<Rightarrow>
        let bg_peak_idx = column bg_peaks i in
        bind_res (take_rows motif_match bg_peak_idx) (\<lambda>bg_motif_match.
        bind_res (deviation_primitive gpu (bg_motif_match, Xc, eo, expectation_var)) (\<lambda>r.
        bind_res (assign_rows (shape_error gpu) (bg_dev ! i) start en r) (\<lambda>B.
        Inr (bg_dev[i := B], writes @ [BgWrite i start en])))))"

text \<open>The body of the outer loop (lines 60 to 78), for one chunk.\<close>

definition process_chunk ::
  "bool \<Rightarrow> int mat \<Rightarrow> fp mat \<Rightarrow> fp mat \<Rightarrow> fp mat \<Rightarrow> nat \<Rightarrow>
   run_state \<Rightarrow> fp mat \<times> nat \<times> nat \<Rightarrow> pyerr + run_state" where
  "process_chunk gpu bg_peaks motif_match expectation_obs expectation_var n_bg_peaks st item =
     (case st of (obs_dev, bg_dev, writes) \<Rightarrow>
      case item of (Xc, start, en) \<Rightarrow>
        let eo = slice_rows expectation_obs start en in
        bind_res (deviation_primitive gpu (motif_match, Xc, eo, expectation_var)) (\<lambda>r.
        bind_res (assign_rows (shape_error gpu) obs_dev start en r) (\<lambda>obs_dev'.
        bind_res (foldM (process_bg gpu bg_peaks motif_match Xc eo expectation_var start en)
                    (bg_dev, writes @ [ObsWrite start en]) [0..<n_bg_peaks]) (\<lambda>(bg_dev', writes').
        Inr (obs_dev', bg_dev', writes')))))"

text \<open>
  Lines 47 to 78: the look-ups, the zero-filled accumulators and the loop over the
  chunks.
\<close>

definition run_chunks ::
  "anndata \<Rightarrow> int mat \<Rightarrow> fp mat \<Rightarrow> fp mat \<Rightarrow> int \<Rightarrow> bool \<Rightarrow> pyerr + run_state" where
  "run_chunks adata bg_peaks expectation_obs expectation_var chunk_size gpu =
     (let n_bg_peaks = ncols bg_peaks in
      case varm_motif_match adata of
        None \<Rightarrow> Inl (KeyError ''motif_match'')
      | Some motif_match \<Rightarrow>
          let obs_dev = zeros (n_obs adata) (ncols motif_match) in
          (case uns_motif_name adata of
             None \<Rightarrow> Inl (KeyError ''motif_name'')
           | Some motif_name \<Rightarrow>
               let bg_dev = replicate n_bg_peaks (zeros (n_obs adata) (length motif_name)) in
               bind_res (chunked_X adata chunk_size) (\<lambda>items.
                 foldM (process_chunk gpu bg_peaks motif_match expectation_obs expectation_var
                          n_bg_peaks)
                   (obs_dev, bg_dev, []) items)))"

text \<open>
  Lines 92 to 95: the result object. Setting \<^verbatim>\<open>obs_names\<close> or \<^verbatim>\<open>var_names\<close> to a list of
  the wrong length raises \<^verbatim>\<open>ValueError\<close>.
\<close>

definition assemble :: "anndata \<Rightarrow> fp mat \<Rightarrow> pyerr + deviations" where
  "assemble adata dev =
     (if length (obs_names adata) \<noteq> nrows dev then Inl ValueError
      else case uns_motif_name adata of
             None \<Rightarrow> Inl (KeyError ''motif_name'')
           | Some motif_name \<Rightarrow>
               if length motif_name \<noteq> ncols dev then Inl ValueError
               else Inr \<lparr>dev_X = dev, dev_obs_names = obs_names adata,
                         dev_var_names = motif_name\<rparr>)"

text \<open>
  Lines 32 to 38: the object worked on is the input itself when it is an \<^verbatim>\<open>AnnData\<close>, its
  \<^verbatim>\<open>atac\<close> modality when it is a \<^verbatim>\<open>MuData\<close> that has one; no other input is accepted.
\<close>

definition select_adata :: "pydata \<Rightarrow> anndata option" where
  "select_adata data =
     (case data of AnnDataObj a \<Rightarrow> Some a
                 | MuDataObj mods \<Rightarrow> mods ''atac''
                 | OtherObj \<Rightarrow> None)"

text \<open>
  \<^verbatim>\<open>compute_deviations\<close>. The first component of the result is the list of the messages
  logged by \<^verbatim>\<open>logging.info\<close>, the second the exception raised or the object returned.
\<close>

definition compute_deviations ::
  "pydata \<Rightarrow> int \<Rightarrow> int \<Rightarrow> bool \<Rightarrow> string list \<times> (pyerr + deviations)" where
  "compute_deviations data n_jobs chunk_size gpu =
     (case select_adata data of
        None \<Rightarrow> ([], Inl (TypeError ''Expected AnnData or MuData object with 'atac' modality''))
      | Some adata \<Rightarrow>
          (case varm_bg_peaks adata of
             None \<Rightarrow> ([], Inl (AssertionError
               ''Cannot find background peaks in the input object, please first run get_bg_peaks!''))
           | Some bg_peaks \<Rightarrow>
               (case compute_expectation (matrix_X adata) gpu of
                  (expectation_obs, expectation_var) \<Rightarrow>
                    ([''computing expectation reads per cell and peak...'',
                      ''computing observed + bg motif deviations...''],
                     bind_res (run_chunks adata bg_peaks expectation_obs expectation_var
                                 chunk_size gpu) (\<lambda>(obs_dev, bg_dev, writes).
                     case uns_motif_name adata of
                       None \<Rightarrow> Inl (KeyError ''motif_name'')
                     | Some motif_name \<Rightarrow>
                         bind_res (normalise gpu (n_obs adata) (length motif_name) obs_dev bg_dev)
                           (assemble adata))))))"

section \<open>Preconditions and unused parameters\<close>

text \<open>
  C10. The parameter \<^verbatim>\<open>n_jobs\<close> is never read: two calls that differ only in it give the
  same log and the same result.
\<close>

theorem n_jobs_irrelevant:
  "compute_deviations data a chunk_size gpu = compute_deviations data b chunk_size gpu"
  by (simp add: compute_deviations_def)

text \<open>
  C4 (amended). An input that is neither an \<^verbatim>\<open>AnnData\<close> nor a \<^verbatim>\<open>MuData\<close> with an \<^verbatim>\<open>atac\<close>
  modality raises \<^verbatim>\<open>TypeError\<close> before anything is logged or computed. An object without
  the background-sample index matrix fails the assertion, with the message naming the
  background peaks, before anything is logged or computed. An object that has the
  background matrix but no feature-match matrix raises \<^verbatim>\<open>KeyError\<close> for \<^verbatim>\<open>motif_match\<close>
  only after the expectation has been computed and both progress messages have been
  logged. No result object is returned in any of the three cases.
\<close>

theorem precondition_failures:
  "(select_adata data = None \<longrightarrow>
      compute_deviations data n_jobs chunk_size gpu =
        ([], Inl (TypeError ''Expected AnnData or MuData object with 'atac' modality'')))
 \<and> (\<forall>adata. select_adata data = Some adata \<and> varm_bg_peaks adata = None \<longrightarrow>
      compute_deviations data n_jobs chunk_size gpu =
        ([], Inl (AssertionError
          ''Cannot find background peaks in the input object, please first run get_bg_peaks!'')))
 \<and> (\<forall>adata bg_peaks. select_adata data = Some adata \<and> varm_bg_peaks adata = Some bg_peaks
        \<and> varm_motif_match adata = None \<longrightarrow>
      compute_deviations data n_jobs chunk_size gpu =
        ([''computing expectation reads per cell and peak...'',
          ''computing observed + bg motif deviations...''],
         Inl (KeyError ''motif_match'')))"
  by (auto simp: compute_deviations_def run_chunks_def bind_res_def Let_def
      split: prod.splits)

theorem precondition_failures_witness:
  "(select_adata OtherObj = None
    \<and> compute_deviations OtherObj (- 1) 10000 False =
        ([], Inl (TypeError ''Expected AnnData or MuData object with 'atac' modality'')))
 \<and> (let adata = \<lparr>matrix_X = Mat 1 1 [[Fin 1]], obs_names = [''cell''],
                   varm_bg_peaks = None, varm_motif_match = Some (Mat 1 1 [[Fin 1]]),
                   uns_motif_name = Some [''motif'']\<rparr>
    in select_adata (MuDataObj [''atac'' \<mapsto> adata]) = Some adata
     \<and> varm_bg_peaks adata = None
     \<and> compute_deviations (MuDataObj [''atac'' \<mapsto> adata]) (- 1) 10000 False =
        ([], Inl (AssertionError
          ''Cannot find background peaks in the input object, please first run get_bg_peaks!'')))
 \<and> (let adata = \<lparr>matrix_X = Mat 1 1 [[Fin 1]], obs_names = [''cell''],
                   varm_bg_peaks = Some (Mat 1 1 [[0]]), varm_motif_match = None,
                   uns_motif_name = Some [''motif'']\<rparr>
    in select_adata (AnnDataObj adata) = Some adata
     \<and> varm_bg_peaks adata = Some (Mat 1 1 [[0]]) \<and> varm_motif_match adata = None
     \<and> compute_deviations (AnnDataObj adata) (- 1) 10000 False =
        ([''computing expectation reads per cell and peak...'',
          ''computing observed + bg motif deviations...''],
         Inl (KeyError ''motif_match'')))"
  using precondition_failures [of OtherObj "- 1" 10000 False]
    precondition_failures [of "MuDataObj [''atac'' \<mapsto> \<lparr>matrix_X = Mat 1 1 [[Fin 1]],
                   obs_names = [''cell''],
                   varm_bg_peaks = None, varm_motif_match = Some (Mat 1 1 [[Fin 1]]),
                   uns_motif_name = Some [''motif'']\<rparr>]" "- 1" 10000 False]
    precondition_failures [of "AnnDataObj \<lparr>matrix_X = Mat 1 1 [[Fin 1]], obs_names = [''cell''],
                   varm_bg_peaks = Some (Mat 1 1 [[0]]), varm_motif_match = None,
                   uns_motif_name = Some [''motif'']\<rparr>" "- 1" 10000 False]
  by (simp add: select_adata_def Let_def)

text \<open>
  With the background matrix present and the feature-match matrix missing, the failure
  is not immediate: both progress messages are logged, and the expectation computed
  between them, before the look-up of \<^verbatim>\<open>motif_match\<close> raises.
\<close>

theorem missing_motif_match_counterexample:
  "compute_deviations
     (AnnDataObj \<lparr>matrix_X = Mat 1 1 [[Fin 1]], obs_names = [''cell''],
                  varm_bg_peaks = Some (Mat 1 1 [[0]]), varm_motif_match = None,
                  uns_motif_name = Some [''motif'']\<rparr>) (- 1) 10000 False =
     ([''computing expectation reads per cell and peak...'',
       ''computing observed + bg motif deviations...''],
      Inl (KeyError ''motif_match''))
   \<and> fst (compute_deviations
     (AnnDataObj \<lparr>matrix_X = Mat 1 1 [[Fin 1]], obs_names = [''cell''],
                  varm_bg_peaks = Some (Mat 1 1 [[0]]), varm_motif_match = None,
                  uns_motif_name = Some [''motif'']\<rparr>) (- 1) 10000 False) \<noteq> []"
  by (simp add: compute_deviations_def select_adata_def run_chunks_def bind_res_def Let_def
      split: prod.splits)

section \<open>Statistics over the background samples\<close>

text \<open>The definitions unfolded to evaluate a run on a concrete input.\<close>

lemmas run_defs =
  compute_deviations_def select_adata_def run_chunks_def chunked_X_def chunk_ranges_def
  process_chunk_def process_bg_def deviation_primitive_def shape_error_def
  compute_deviations_host_def compute_deviations_gpu_def np_divide_where_def torch_div_out_def
  masked_zero_def ew2_def matmul_def mat_product_def bind_res_def
  compute_expectation_def normalise_def background_stats_def reduce_axis0_def
  np_mean_def np_std_def torch_mean_def torch_std_def map_mat_def assemble_def
  slice_rows_def assign_rows_def column_def take_rows_def selected_rows_def n_obs_def zeros_def
  tabulate_def entry_def bat_def bdim_def fsub_def fne0_def feq0_def inf_of_sign_def
  Let_def upt_conv_Cons

lemma replicate_two: "replicate 2 x = [x, x]"
  by (simp add: numeral_2_eq_2)

lemma host_std_is_population:
  "snd (background_stats False n L bg_dev) = reduce_axis0 population_std n L bg_dev"
  by (simp add: background_stats_def reduce_axis0_def np_std_def np_mean_def
      population_std_def Let_def)

lemma stats_means:
  "fst (background_stats gpu n L bg_dev) =
     tabulate n L (\<lambda>c f. fdiv (fsum (map (\<lambda>B. entry B c f) bg_dev)) (Fin (real (length bg_dev))))"
  by (simp add: background_stats_def reduce_axis0_def np_mean_def torch_mean_def)

lemma gpu_std_example:
  "snd (background_stats True 1 1 [Mat 1 1 [[Fin 1]], Mat 1 1 [[Fin (- 1)]]])
     = Mat 1 1 [[Fin (sqrt 2)]]
   \<and> snd (background_stats False 1 1 [Mat 1 1 [[Fin 1]], Mat 1 1 [[Fin (- 1)]]])
     = Mat 1 1 [[Fin 1]]
   \<and> population_std [Fin 1, Fin (- 1)] = Fin 1
   \<and> fsqrt (Fin 2) \<noteq> population_std [Fin 1, Fin (- 1)]"
  by (simp add: background_stats_def reduce_axis0_def np_std_def np_mean_def torch_std_def
      torch_mean_def population_std_def tabulate_def entry_def fsub_def Let_def)

lemma gpu_run_example:
  "snd (compute_deviations
     (AnnDataObj \<lparr>matrix_X = Mat 2 2 [[Fin 1, Fin 0], [Fin 0, Fin 1]],
                  obs_names = [''cell0'', ''cell1''],
                  varm_bg_peaks = Some (Mat 2 2 [[0, 1], [1, 0]]),
                  varm_motif_match = Some (Mat 2 1 [[Fin 1], [Fin 0]]),
                  uns_motif_name = Some [''motif'']\<rparr>) (- 1) 10000 True) =
      Inr \<lparr>dev_X = Mat 2 1 [[Fin (1 / sqrt 2)], [Fin (- 1 / sqrt 2)]],
           dev_obs_names = [''cell0'', ''cell1''], dev_var_names = [''motif'']\<rparr>"
  by (simp add: run_defs replicate_two)

lemma host_run_example:
  "snd (compute_deviations
     (AnnDataObj \<lparr>matrix_X = Mat 2 2 [[Fin 1, Fin 0], [Fin 0, Fin 1]],
                  obs_names = [''cell0'', ''cell1''],
                  varm_bg_peaks = Some (Mat 2 2 [[0, 1], [1, 0]]),
                  varm_motif_match = Some (Mat 2 1 [[Fin 1], [Fin 0]]),
                  uns_motif_name = Some [''motif'']\<rparr>) (- 1) 10000 False) =
      Inr \<lparr>dev_X = Mat 2 1 [[Fin 1], [Fin (- 1)]],
           dev_obs_names = [''cell0'', ''cell1''], dev_var_names = [''motif'']\<rparr>"
  by (simp add: run_defs replicate_two)


text \<open>
  C2. On the host path the statistics of the background deviations are the arithmetic
  mean and the population standard deviation (divide by n). On the accelerator path
  the mean is the arithmetic mean, but \<^verbatim>\<open>torch.std\<close> divides by n - 1: for the two
  background deviations 1 and -1 at one position it gives the square root of 2, where the
  population standard deviation is 1, and the returned matrix differs from the host's
  by that factor.
\<close>

theorem gpu_std_is_sample_std:
  "snd (background_stats True 1 1 [Mat 1 1 [[Fin 1]], Mat 1 1 [[Fin (- 1)]]])
     = Mat 1 1 [[Fin (sqrt 2)]]
   \<and> population_std [Fin 1, Fin (- 1)] = Fin 1
   \<and> fsqrt (Fin 2) \<noteq> population_std [Fin 1, Fin (- 1)]
   \<and> snd (compute_deviations
       (AnnDataObj \<lparr>matrix_X = Mat 2 2 [[Fin 1, Fin 0], [Fin 0, Fin 1]],
                    obs_names = [''cell0'', ''cell1''],
                    varm_bg_peaks = Some (Mat 2 2 [[0, 1], [1, 0]]),
                    varm_motif_match = Some (Mat 2 1 [[Fin 1], [Fin 0]]),
                    uns_motif_name = Some [''motif'']\<rparr>) (- 1) 10000 True) =
        Inr \<lparr>dev_X = Mat 2 1 [[Fin (1 / sqrt 2)], [Fin (- 1 / sqrt 2)]],
             dev_obs_names = [''cell0'', ''cell1''], dev_var_names = [''motif'']\<rparr>
   \<and> snd (compute_deviations
       (AnnDataObj \<lparr>matrix_X = Mat 2 2 [[Fin 1, Fin 0], [Fin 0, Fin 1]],
                    obs_names = [''cell0'', ''cell1''],
                    varm_bg_peaks = Some (Mat 2 2 [[0, 1], [1, 0]]),
                    varm_motif_match = Some (Mat 2 1 [[Fin 1], [Fin 0]]),
                    uns_motif_name = Some [''motif'']\<rparr>) (- 1) 10000 False) =
        Inr \<lparr>dev_X = Mat 2 1 [[Fin 1], [Fin (- 1)]],
             dev_obs_names = [''cell0'', ''cell1''], dev_var_names = [''motif'']\<rparr>"
  using gpu_std_example gpu_run_example host_run_example by simp

lemma nrows_fst_stats [simp]: "nrows (fst (background_stats gpu n L T)) = n"
  and ncols_fst_stats [simp]: "ncols (fst (background_stats gpu n L T)) = L"
  and nrows_snd_stats [simp]: "nrows (snd (background_stats gpu n L T)) = n"
  and ncols_snd_stats [simp]: "ncols (snd (background_stats gpu n L T)) = L"
  by (simp_all add: background_stats_def reduce_axis0_def)

lemma normalise_shaped:
  assumes "nrows obs_dev = n" and "ncols obs_dev = L"
  shows "normalise gpu n L obs_dev bg_dev =
     Inr (tabulate n L (\<lambda>c f.
        nan_to_num (fdiv (fsub (entry obs_dev c f) (entry (fst (background_stats gpu n L bg_dev)) c f))
                         (entry (snd (background_stats gpu n L bg_dev)) c f))))"
proof -
  obtain m s where ms: "background_stats gpu n L bg_dev = (m, s)"
    by (cases "background_stats gpu n L bg_dev")
  have shapes: "nrows m = n" "ncols m = L" "nrows s = n" "ncols s = L"
    using nrows_fst_stats[of gpu n L bg_dev] ncols_fst_stats[of gpu n L bg_dev]
      nrows_snd_stats[of gpu n L bg_dev] ncols_snd_stats[of gpu n L bg_dev]
    by (simp_all add: ms)
  show ?thesis
    using assms shapes
    by (auto simp: normalise_def ms ew2_def bind_res_def map_mat_def bat_eq_entry Let_def
        intro!: tabulate_cong)
qed

lemma nan_to_num_finite: "is_finite (nan_to_num x)"
  by (cases x) (simp_all add: is_finite_def)

text \<open>
  C3 (amended). In the final normalisation, on accumulators of the shapes allocated,
  every entry returned is finite: NaN is replaced by 0, plus infinity by the largest
  finite single-precision number and minus infinity by its negative. In particular,
  where the standard deviation of the background is exactly 0, the output is 0 when the
  observed deviation equals the background mean, the largest finite number when it is
  larger, and its negative when it is smaller. The standard deviation is exactly 0, and
  the mean the background deviation itself, when there is a single background sample on
  the host path.
\<close>

theorem normalisation_replaces_nonfinite:
  assumes "nrows obs_dev = n" and "ncols obs_dev = L" and "c < n" and "f < L"
  shows "\<exists>Z. normalise gpu n L obs_dev bg_dev = Inr Z \<and> nrows Z = n \<and> ncols Z = L
    \<and> entry Z c f =
        nan_to_num (fdiv (fsub (entry obs_dev c f)
                               (entry (fst (background_stats gpu n L bg_dev)) c f))
                         (entry (snd (background_stats gpu n L bg_dev)) c f))
    \<and> is_finite (entry Z c f)
    \<and> (\<forall>m x. entry (snd (background_stats gpu n L bg_dev)) c f = Fin 0
              \<and> entry (fst (background_stats gpu n L bg_dev)) c f = Fin m
              \<and> entry obs_dev c f = Fin x \<longrightarrow>
          entry Z c f = (if x = m then Fin 0
                         else if m < x then Fin flt_max else Fin (- flt_max)))
    \<and> (\<forall>B d. \<not> gpu \<and> bg_dev = [B] \<and> entry B c f = Fin d \<longrightarrow>
          entry (fst (background_stats gpu n L bg_dev)) c f = Fin d
        \<and> entry (snd (background_stats gpu n L bg_dev)) c f = Fin 0)"
proof -
  let ?m = "entry (fst (background_stats gpu n L bg_dev)) c f"
  let ?s = "entry (snd (background_stats gpu n L bg_dev)) c f"
  let ?Z = "tabulate n L (\<lambda>c f.
        nan_to_num (fdiv (fsub (entry obs_dev c f) (entry (fst (background_stats gpu n L bg_dev)) c f))
                         (entry (snd (background_stats gpu n L bg_dev)) c f)))"
  have Z: "normalise gpu n L obs_dev bg_dev = Inr ?Z"
    by (rule normalise_shaped[OF assms(1,2)])
  have zero: "entry ?Z c f = (if x = m then Fin 0
                         else if m < x then Fin flt_max else Fin (- flt_max))"
    if "?s = Fin 0" and "?m = Fin m" and "entry obs_dev c f = Fin x" for m x
    using assms(3,4) that by (simp add: fsub_def inf_of_sign_def)
  have single: "?m = Fin d \<and> ?s = Fin 0"
    if "\<not> gpu" and "bg_dev = [B]" and "entry B c f = Fin d" for B d
    using assms(3,4) that
    by (simp add: background_stats_def reduce_axis0_def np_mean_def np_std_def fsub_def Let_def)
  show ?thesis
    using assms(3,4) zero single
    by (intro exI[of _ ?Z]) (simp add: Z nan_to_num_finite)
qed

lemma flt_max_pos: "0 < flt_max"
  by (simp add: flt_max_def)

theorem normalisation_replaces_nonfinite_witness:
  "let obs_dev = Mat 2 1 [[Fin 1], [Fin (- 1)]]; B = Mat 2 1 [[Fin (- 1)], [Fin 1]]
   in nrows obs_dev = 2 \<and> ncols obs_dev = 1 \<and> (0::nat) < 2 \<and> (0::nat) < 1
    \<and> \<not> False \<and> entry B 0 0 = Fin (- 1) \<and> entry obs_dev 0 0 = Fin 1
    \<and> entry (fst (background_stats False 2 1 [B])) 0 0 = Fin (- 1)
    \<and> entry (snd (background_stats False 2 1 [B])) 0 0 = Fin 0
    \<and> (\<exists>Z. normalise False 2 1 obs_dev [B] = Inr Z \<and> entry Z 0 0 = Fin flt_max)"
proof -
  let ?obs = "Mat 2 1 [[Fin 1], [Fin (- 1)]]"
  let ?B = "Mat 2 1 [[Fin (- 1)], [Fin 1]]"
  let ?m = "entry (fst (background_stats False 2 1 [?B])) 0 0"
  let ?s = "entry (snd (background_stats False 2 1 [?B])) 0 0"
  from normalisation_replaces_nonfinite [of ?obs 2 1 0 0 False "[?B]"]
  obtain Z where Z: "normalise False 2 1 ?obs [?B] = Inr Z"
    and zero: "\<forall>m x. ?s = Fin 0 \<and> ?m = Fin m \<and> entry ?obs 0 0 = Fin x \<longrightarrow>
          entry Z 0 0 = (if x = m then Fin 0
                         else if m < x then Fin flt_max else Fin (- flt_max))"
    and single: "\<forall>B d. \<not> False \<and> [?B] = [B] \<and> entry B 0 0 = Fin d \<longrightarrow>
          ?m = Fin d \<and> ?s = Fin 0"
    by auto
  have B: "entry ?B 0 0 = Fin (- 1)" and x: "entry ?obs 0 0 = Fin 1"
    by (simp_all add: entry_def)
  from single [rule_format, of ?B "- 1"] B have ms: "?m = Fin (- 1)" "?s = Fin 0"
    by simp_all
  from zero [rule_format, of "- 1" 1] ms x have "entry Z 0 0 = Fin flt_max"
    by simp
  with Z ms B x show ?thesis
    by (simp add: Let_def)
qed

text \<open>
  A run on the host path with a single background sample: the standard deviation is 0
  at both cells, the observed deviation differs from the background deviation, the
  quotients are plus and minus infinity, and the result holds the largest finite
  number and its negative, not 0.
\<close>

theorem infinite_entries_counterexample:
  "compute_deviations
     (AnnDataObj \<lparr>matrix_X = Mat 2 2 [[Fin 1, Fin 0], [Fin 0, Fin 1]],
                  obs_names = [''cell0'', ''cell1''],
                  varm_bg_peaks = Some (Mat 2 1 [[1], [0]]),
                  varm_motif_match = Some (Mat 2 1 [[Fin 1], [Fin 0]]),
                  uns_motif_name = Some [''motif'']\<rparr>) (- 1) 10000 False =
     ([''computing expectation reads per cell and peak...'',
       ''computing observed + bg motif deviations...''],
      Inr \<lparr>dev_X = Mat 2 1 [[Fin flt_max], [Fin (- flt_max)]],
           dev_obs_names = [''cell0'', ''cell1''], dev_var_names = [''motif'']\<rparr>)
   \<and> Fin flt_max \<noteq> Fin 0 \<and> Fin (- flt_max) \<noteq> Fin 0"
  using flt_max_pos by (simp add: run_defs)

section \<open>The end-to-end scenario\<close>

text \<open>
  C9. For the feature-match matrix [[1,0],[1,1],[0,1]], the count matrix
  [[4,0,0],[0,2,2]] and the single identity background sample [[0],[1],[2]], on the
  host path with the default chunk size: the run of the chunks leaves in cell 0 the
  observed deviation [1/3, -1] and the same background deviation, the standard deviation
  over the single sample is 0 in cell 0, and the row of cell 0 of the returned matrix is
  0 in both feature columns (so is the row of cell 1).
\<close>

theorem scenario_identity_background:
  "(case run_chunks
           \<lparr>matrix_X = Mat 2 3 [[Fin 4, Fin 0, Fin 0], [Fin 0, Fin 2, Fin 2]],
            obs_names = [''cell0'', ''cell1''],
            varm_bg_peaks = Some (Mat 3 1 [[0], [1], [2]]),
            varm_motif_match = Some (Mat 3 2 [[Fin 1, Fin 0], [Fin 1, Fin 1], [Fin 0, Fin 1]]),
            uns_motif_name = Some [''motif0'', ''motif1'']\<rparr>
           (Mat 3 1 [[0], [1], [2]])
           (fst (compute_expectation
                   (Mat 2 3 [[Fin 4, Fin 0, Fin 0], [Fin 0, Fin 2, Fin 2]]) False))
           (snd (compute_expectation
                   (Mat 2 3 [[Fin 4, Fin 0, Fin 0], [Fin 0, Fin 2, Fin 2]]) False))
           10000 False of
      Inl e \<Rightarrow> False
    | Inr (obs_dev, bg_dev, writes) \<Rightarrow>
        length bg_dev = 1
      \<and> rows obs_dev ! 0 = [Fin (1 / 3), Fin (- 1)]
      \<and> rows (bg_dev ! 0) ! 0 = rows obs_dev ! 0
      \<and> rows (snd (background_stats False 2 2 bg_dev)) ! 0 = [Fin 0, Fin 0])
 \<and> compute_deviations
      (AnnDataObj
         \<lparr>matrix_X = Mat 2 3 [[Fin 4, Fin 0, Fin 0], [Fin 0, Fin 2, Fin 2]],
          obs_names = [''cell0'', ''cell1''],
          varm_bg_peaks = Some (Mat 3 1 [[0], [1], [2]]),
          varm_motif_match = Some (Mat 3 2 [[Fin 1, Fin 0], [Fin 1, Fin 1], [Fin 0, Fin 1]]),
          uns_motif_name = Some [''motif0'', ''motif1'']\<rparr>) n_jobs 10000 False =
      ([''computing expectation reads per cell and peak...'',
        ''computing observed + bg motif deviations...''],
       Inr \<lparr>dev_X = Mat 2 2 [[Fin 0, Fin 0], [Fin 0, Fin 0]],
            dev_obs_names = [''cell0'', ''cell1''],
            dev_var_names = [''motif0'', ''motif1'']\<rparr>)"
  by (simp add: run_defs)

section \<open>The chunked run computes the deviations of the whole matrix\<close>

text \<open>
  The deviations of all cells against one feature-match matrix, as the primitive
  computes them on the whole count matrix.
\<close>

definition full_dev :: "fp mat \<Rightarrow> fp mat \<Rightarrow> fp mat \<Rightarrow> fp mat \<Rightarrow> fp mat" where
  "full_dev M C eo ev =
     tabulate (nrows C) (ncols M) (\<lambda>i j.
        guarded_deviation (entry (mat_product C M) i j)
          (entry (mat_product eo (mat_product ev M)) i j))"

text \<open>An accumulator whose rows below \<open>t\<close> hold the rows of \<open>F\<close> and whose other rows are 0.\<close>

definition filled_to :: "nat \<Rightarrow> fp mat \<Rightarrow> fp mat" where
  "filled_to t F = tabulate (nrows F) (ncols F) (\<lambda>i j. if i < t then entry F i j else Fin 0)"

lemma nrows_slice_rows [simp]: "nrows (slice_rows A s e) = min e (nrows A) - min s (nrows A)"
  by (simp add: slice_rows_def)

lemma ncols_slice_rows [simp]: "ncols (slice_rows A s e) = ncols A"
  by (simp add: slice_rows_def)

lemma entry_slice_rows:
  "e \<le> nrows A \<Longrightarrow> i < e - s \<Longrightarrow> j < ncols A \<Longrightarrow>
     entry (slice_rows A s e) i j = entry A (s + i) j"
  by (simp add: slice_rows_def)

lemma nrows_full_dev [simp]: "nrows (full_dev M C eo ev) = nrows C"
  by (simp add: full_dev_def)

lemma ncols_full_dev [simp]: "ncols (full_dev M C eo ev) = ncols M"
  by (simp add: full_dev_def)

lemma nrows_filled_to [simp]: "nrows (filled_to t F) = nrows F"
  by (simp add: filled_to_def)

lemma ncols_filled_to [simp]: "ncols (filled_to t F) = ncols F"
  by (simp add: filled_to_def)

lemma deviation_primitive_shaped:
  assumes "ncols C = nrows M" "ncols ev = nrows M" "ncols eo = nrows ev" "nrows eo = nrows C"
  shows "deviation_primitive gpu (M, C, eo, ev) = Inr (full_dev M C eo ev)"
  using assms
  by (simp add: deviation_primitive_def full_dev_def compute_deviations_host_shaped
      compute_deviations_gpu_shaped)

lemma mat_product_slice:
  assumes "e \<le> nrows A" "i < e - s" "j < ncols B"
  shows "entry (mat_product (slice_rows A s e) B) i j = entry (mat_product A B) (s + i) j"
proof -
  have eq: "map (\<lambda>k. fmul (entry (slice_rows A s e) i k) (entry B k j)) [0..<ncols A]
      = map (\<lambda>k. fmul (entry A (s + i) k) (entry B k j)) [0..<ncols A]"
    using assms by (simp add: entry_slice_rows)
  show ?thesis
    using assms by (simp add: mat_product_def eq)
qed

lemma deviation_primitive_slice:
  assumes "ncols C = nrows M" "ncols ev = nrows M" "ncols eo = nrows ev" "nrows eo = nrows C"
    and "s \<le> e" "e \<le> nrows C"
  shows "deviation_primitive gpu (M, slice_rows C s e, slice_rows eo s e, ev) =
         Inr (slice_rows (full_dev M C eo ev) s e)"
proof -
  have "deviation_primitive gpu (M, slice_rows C s e, slice_rows eo s e, ev) =
        Inr (full_dev M (slice_rows C s e) (slice_rows eo s e) ev)"
    using assms by (intro deviation_primitive_shaped) simp_all
  moreover have "full_dev M (slice_rows C s e) (slice_rows eo s e) ev =
        slice_rows (full_dev M C eo ev) s e"
    using assms
    by (auto simp: full_dev_def slice_rows_def[of "tabulate r c g" for r c g]
          mat_product_slice min_absorb1 min_absorb2 intro!: tabulate_cong)
  ultimately show ?thesis by simp
qed

lemma assign_rows_slice:
  assumes "s \<le> e" "e \<le> nrows F" "nrows A = nrows F" "ncols A = ncols F"
  shows "assign_rows err A s e (slice_rows F s e) =
         Inr (tabulate (nrows F) (ncols F)
               (\<lambda>i j. if s \<le> i \<and> i < e then entry F i j else entry A i j))"
  using assms
  by (auto simp: assign_rows_def Let_def min_absorb1 min_absorb2 bat_eq_entry entry_slice_rows
      intro!: tabulate_cong)

lemma assign_rows_filled:
  assumes "s \<le> e" "e \<le> nrows F"
  shows "assign_rows err (filled_to s F) s e (slice_rows F s e) = Inr (filled_to e F)"
proof -
  have "assign_rows err (filled_to s F) s e (slice_rows F s e) =
         Inr (tabulate (nrows F) (ncols F)
               (\<lambda>i j. if s \<le> i \<and> i < e then entry F i j else entry (filled_to s F) i j))"
    using assms by (intro assign_rows_slice) simp_all
  also have "tabulate (nrows F) (ncols F)
               (\<lambda>i j. if s \<le> i \<and> i < e then entry F i j else entry (filled_to s F) i j)
           = filled_to e F"
    unfolding filled_to_def[of e] using assms
    by (intro tabulate_cong) (auto simp: filled_to_def)
  finally show ?thesis .
qed


lemma filled_to_tabulate: "filled_to r (tabulate r c g) = tabulate r c g"
  unfolding filled_to_def nrows_tabulate ncols_tabulate
  by (rule tabulate_cong) simp

lemma filled_to_full_dev:
  "filled_to (nrows C) (full_dev M C eo ev) = full_dev M C eo ev"
  by (simp add: full_dev_def filled_to_tabulate)

lemma filled_to_zero: "filled_to 0 F = zeros (nrows F) (ncols F)"
  by (simp add: filled_to_def zeros_def)

lemma foldM_append:
  "foldM f s (xs @ ys) = (case foldM f s xs of Inl e \<Rightarrow> Inl e | Inr s' \<Rightarrow> foldM f s' ys)"
  by (induction xs arbitrary: s) (auto split: sum.splits)

text \<open>The feature-match matrix of background sample \<open>i\<close>, and the deviations against it.\<close>

definition bg_motif_match :: "int mat \<Rightarrow> fp mat \<Rightarrow> nat \<Rightarrow> fp mat" where
  "bg_motif_match bg_peaks M i = selected_rows M (column bg_peaks i)"

definition indices_ok :: "int mat \<Rightarrow> fp mat \<Rightarrow> bool" where
  "indices_ok bg_peaks M =
     list_all (\<lambda>i. list_all (\<lambda>k. - int (nrows M) \<le> k \<and> k < int (nrows M)) (column bg_peaks i))
       [0..<ncols bg_peaks]"

lemma take_rows_ok:
  "indices_ok bg_peaks M \<Longrightarrow> i < ncols bg_peaks \<Longrightarrow>
     take_rows M (column bg_peaks i) = Inr (bg_motif_match bg_peaks M i)"
  by (simp add: indices_ok_def take_rows_def bg_motif_match_def list_all_iff)

lemma nrows_bg_motif_match [simp]: "nrows (bg_motif_match bg_peaks M i) = nrows bg_peaks"
  by (simp add: bg_motif_match_def selected_rows_def column_def)

lemma ncols_bg_motif_match [simp]: "ncols (bg_motif_match bg_peaks M i) = ncols M"
  by (simp add: bg_motif_match_def selected_rows_def)

text \<open>
  The state of \<^verbatim>\<open>bg_dev\<close> inside the inner loop of the chunk \<open>[s, e)\<close>, when the samples
  below \<open>k\<close> have been written for this chunk.
\<close>

definition bg_state ::
  "int mat \<Rightarrow> fp mat \<Rightarrow> fp mat \<Rightarrow> fp mat \<Rightarrow> fp mat \<Rightarrow> nat \<Rightarrow> nat \<Rightarrow> nat \<Rightarrow> fp mat list" where
  "bg_state bg_peaks M C eo ev k s e =
     map (\<lambda>i. filled_to (if i < k then e else s) (full_dev (bg_motif_match bg_peaks M i) C eo ev))
       [0..<ncols bg_peaks]"

lemma process_bg_step:
  assumes ok: "indices_ok bg_peaks M"
    and shapes: "nrows bg_peaks = ncols C" "ncols ev = ncols C" "ncols eo = nrows ev"
      "nrows eo = nrows C"
    and se: "s \<le> e" "e \<le> nrows C"
    and k: "k < ncols bg_peaks"
  shows "process_bg gpu bg_peaks M (slice_rows C s e) (slice_rows eo s e) ev s e
           (bg_state bg_peaks M C eo ev k s e, ws) k =
         Inr (bg_state bg_peaks M C eo ev (Suc k) s e, ws @ [BgWrite k s e])"
proof -
  let ?Mk = "bg_motif_match bg_peaks M k"
  let ?F = "full_dev ?Mk C eo ev"
  have prim: "deviation_primitive gpu (?Mk, slice_rows C s e, slice_rows eo s e, ev) =
              Inr (slice_rows ?F s e)"
    using shapes se by (intro deviation_primitive_slice) simp_all
  have nth: "bg_state bg_peaks M C eo ev k s e ! k = filled_to s ?F"
    using k by (simp add: bg_state_def)
  have asg: "assign_rows (shape_error gpu) (filled_to s ?F) s e (slice_rows ?F s e) =
             Inr (filled_to e ?F)"
    using se by (intro assign_rows_filled) simp_all
  have upd: "(bg_state bg_peaks M C eo ev k s e)[k := filled_to e ?F] =
             bg_state bg_peaks M C eo ev (Suc k) s e"
    using k by (auto simp: bg_state_def nth_list_update less_Suc_eq intro!: nth_equalityI)
  show ?thesis
    by (simp add: process_bg_def take_rows_ok[OF ok k] bind_res_def prim nth asg upd Let_def)
qed

lemma inner_loop:
  assumes ok: "indices_ok bg_peaks M"
    and shapes: "nrows bg_peaks = ncols C" "ncols ev = ncols C" "ncols eo = nrows ev"
      "nrows eo = nrows C"
    and se: "s \<le> e" "e \<le> nrows C"
    and k: "k \<le> ncols bg_peaks"
  shows "foldM (process_bg gpu bg_peaks M (slice_rows C s e) (slice_rows eo s e) ev s e)
           (bg_state bg_peaks M C eo ev 0 s e, ws) [0..<k] =
         Inr (bg_state bg_peaks M C eo ev k s e, ws @ map (\<lambda>i. BgWrite i s e) [0..<k])"
  using k
proof (induction k)
  case 0
  show ?case by simp
next
  case (Suc k)
  then have "k < ncols bg_peaks" by simp
  from process_bg_step[OF ok shapes se this] Suc show ?case
    by (simp add: foldM_append)
qed

lemma bg_state_done:
  "bg_state bg_peaks M C eo ev (ncols bg_peaks) s e = bg_state bg_peaks M C eo ev 0 e e'"
  by (simp add: bg_state_def)

text \<open>The slice assignments of one chunk, in the order in which they are executed.\<close>

definition chunk_writes :: "nat \<Rightarrow> nat \<times> nat \<Rightarrow> slice_write list" where
  "chunk_writes n_bg_peaks c =
     (case c of (s, e) \<Rightarrow> ObsWrite s e # map (\<lambda>i. BgWrite i s e) [0..<n_bg_peaks])"

lemma process_chunk_step:
  assumes ok: "indices_ok bg_peaks M"
    and shapes: "nrows bg_peaks = ncols C" "nrows M = ncols C" "ncols ev = ncols C"
      "ncols eo = nrows ev" "nrows eo = nrows C"
    and se: "s \<le> e" "e \<le> nrows C"
  shows "process_chunk gpu bg_peaks M eo ev (ncols bg_peaks)
           (filled_to s (full_dev M C eo ev), bg_state bg_peaks M C eo ev 0 s s, ws)
           (slice_rows C s e, s, e) =
         Inr (filled_to e (full_dev M C eo ev), bg_state bg_peaks M C eo ev 0 e e,
              ws @ chunk_writes (ncols bg_peaks) (s, e))"
proof -
  let ?F = "full_dev M C eo ev"
  have prim: "deviation_primitive gpu (M, slice_rows C s e, slice_rows eo s e, ev) =
              Inr (slice_rows ?F s e)"
    using shapes se by (intro deviation_primitive_slice) simp_all
  have asg: "assign_rows (shape_error gpu) (filled_to s ?F) s e (slice_rows ?F s e) =
             Inr (filled_to e ?F)"
    using se by (intro assign_rows_filled) simp_all
  have st: "bg_state bg_peaks M C eo ev 0 s s = bg_state bg_peaks M C eo ev 0 s e"
    by (simp add: bg_state_def)
  have inner: "foldM (process_bg gpu bg_peaks M (slice_rows C s e) (slice_rows eo s e) ev s e)
           (bg_state bg_peaks M C eo ev 0 s e, ws @ [ObsWrite s e]) [0..<ncols bg_peaks] =
         Inr (bg_state bg_peaks M C eo ev 0 e e,
              (ws @ [ObsWrite s e]) @ map (\<lambda>i. BgWrite i s e) [0..<ncols bg_peaks])"
    using inner_loop[OF ok shapes(1,3,4,5) se order_refl, of gpu "ws @ [ObsWrite s e]"]
    by (simp add: bg_state_done[of _ _ _ _ _ s e e])
  show ?thesis
    by (simp add: process_chunk_def bind_res_def prim asg st inner chunk_writes_def Let_def)
qed


section \<open>The chunks\<close>

text \<open>
  A list of row ranges that starts at \<open>s\<close>, ends at \<open>t\<close>, and in which every range is
  non-empty and starts where the previous one ends.
\<close>

fun chain :: "nat \<Rightarrow> (nat \<times> nat) list \<Rightarrow> nat \<Rightarrow> bool" where
  "chain s [] t = (s = t)"
| "chain s ((a, b) # cs) t = (a = s \<and> a < b \<and> chain b cs t)"

lemma chain_append: "chain s (xs @ ys) t = (\<exists>u. chain s xs u \<and> chain u ys t)"
  by (induction xs arbitrary: s) auto

lemma chain_le: "chain s cs t \<Longrightarrow> s \<le> t"
proof (induction cs arbitrary: s)
  case Nil
  then show ?case by simp
next
  case (Cons x cs)
  obtain a b where x: "x = (a, b)" by (cases x)
  from Cons.prems x have a: "a = s" "a < b" and ch: "chain b cs t" by auto
  from Cons.IH[OF ch] a show ?case by simp
qed

lemma chain_bounds:
  "chain s cs t \<Longrightarrow> c \<in> set cs \<Longrightarrow> s \<le> fst c \<and> fst c < snd c \<and> snd c \<le> t"
proof (induction cs arbitrary: s)
  case Nil
  then show ?case by simp
next
  case (Cons x cs)
  obtain a b where x: "x = (a, b)" by (cases x)
  from Cons.prems x have a: "a = s" "a < b" and ch: "chain b cs t" by auto
  show ?case
  proof (cases "c = x")
    case True
    with x a chain_le[OF ch] show ?thesis by simp
  next
    case False
    with Cons.prems have "c \<in> set cs" by simp
    from Cons.IH[OF ch this] a show ?thesis by simp
  qed
qed

lemma chain_cover:
  "chain s cs t \<Longrightarrow> s \<le> r \<Longrightarrow> r < t \<Longrightarrow> \<exists>!c. c \<in> set cs \<and> fst c \<le> r \<and> r < snd c"
proof (induction cs arbitrary: s)
  case Nil
  then show ?case by simp
next
  case (Cons x cs)
  obtain a b where x: "x = (a, b)" by (cases x)
  from Cons.prems x have a: "a = s" "a < b" and ch: "chain b cs t" by auto
  show ?case
  proof (cases "r < b")
    case True
    have "x \<in> set (x # cs) \<and> fst x \<le> r \<and> r < snd x"
      using x a True Cons.prems by simp
    moreover have "c = x" if "c \<in> set (x # cs) \<and> fst c \<le> r \<and> r < snd c" for c
    proof (rule ccontr)
      assume "c \<noteq> x"
      with that have "c \<in> set cs" by simp
      from chain_bounds[OF ch this] that True show False by simp
    qed
    ultimately show ?thesis by blast
  next
    case False
    then have "b \<le> r" by simp
    from Cons.IH[OF ch this Cons.prems(3)]
    obtain c where c: "c \<in> set cs" "fst c \<le> r" "r < snd c"
      and uniq: "\<And>d. d \<in> set cs \<and> fst d \<le> r \<and> r < snd d \<Longrightarrow> d = c"
      by blast
    have "c \<in> set (x # cs) \<and> fst c \<le> r \<and> r < snd c" using c by simp
    moreover have "d = c" if "d \<in> set (x # cs) \<and> fst d \<le> r \<and> r < snd d" for d
    proof -
      have "d \<noteq> x" using that False x by auto
      with that show ?thesis using uniq by simp
    qed
    ultimately show ?thesis by blast
  qed
qed

lemma full_chunks_chain:
  "0 < k \<Longrightarrow> full_chunks c s k = (cs, u) \<Longrightarrow> u = s + c * k \<and> chain s cs u"
proof (induction c arbitrary: s cs u)
  case 0
  then show ?case by simp
next
  case (Suc c)
  obtain cs' u' where r: "full_chunks c (s + k) k = (cs', u')"
    by (cases "full_chunks c (s + k) k")
  from Suc.IH[OF Suc.prems(1) r] have "u' = s + k + c * k" "chain (s + k) cs' u'" by auto
  with Suc.prems r show ?case by auto
qed

lemma chunk_ranges_chain:
  assumes "0 < chunk_size"
  shows "\<exists>cs. chunk_ranges n chunk_size = Inr cs \<and> chain 0 cs n"
proof -
  define k where "k = nat chunk_size"
  have k: "0 < k" "chunk_size = int k" using assms by (simp_all add: k_def)
  have iters: "nat (int n div chunk_size) = n div k"
    by (simp add: k(2) zdiv_int[symmetric])
  obtain cs u where fc: "full_chunks (n div k) 0 k = (cs, u)"
    by (cases "full_chunks (n div k) 0 k")
  from full_chunks_chain[OF k(1) fc] have u: "u = n div k * k" and ch: "chain 0 cs u" by auto
  have le: "u \<le> n" by (simp add: u)
  have res: "chunk_ranges n chunk_size = Inr (cs @ (if u < n then [(u, n)] else []))"
    using assms by (simp add: chunk_ranges_def iters k_def[symmetric] fc)
  have "chain 0 (cs @ (if u < n then [(u, n)] else [])) n"
    using ch le by (auto simp: chain_append)
  with res show ?thesis by blast
qed


lemma outer_loop:
  assumes ok: "indices_ok bg_peaks M"
    and shapes: "nrows bg_peaks = ncols C" "nrows M = ncols C" "ncols ev = ncols C"
      "ncols eo = nrows ev" "nrows eo = nrows C"
  shows "chain s cs t \<Longrightarrow> t \<le> nrows C \<Longrightarrow>
         foldM (process_chunk gpu bg_peaks M eo ev (ncols bg_peaks))
           (filled_to s (full_dev M C eo ev), bg_state bg_peaks M C eo ev 0 s s, ws)
           (map (\<lambda>(a, b). (slice_rows C a b, a, b)) cs) =
         Inr (filled_to t (full_dev M C eo ev), bg_state bg_peaks M C eo ev 0 t t,
              ws @ concat (map (chunk_writes (ncols bg_peaks)) cs))"
proof (induction cs arbitrary: s ws)
  case Nil
  then show ?case by simp
next
  case (Cons x cs)
  obtain a b where x: "x = (a, b)" by (cases x)
  from Cons.prems x have a: "a = s" "s < b" and ch: "chain b cs t" by auto
  have b: "s \<le> b" "b \<le> nrows C"
    using a chain_le[OF ch] Cons.prems(2) by simp_all
  note step = process_chunk_step[OF ok shapes b, of gpu ws]
  note rest = Cons.IH[OF ch Cons.prems(2), of "ws @ chunk_writes (ncols bg_peaks) (s, b)"]
  show ?case
    by (simp add: x a(1) step rest)
qed

text \<open>The first row that a slice assignment writes.\<close>

fun write_start :: "slice_write \<Rightarrow> nat" where
  "write_start (ObsWrite s e) = s"
| "write_start (BgWrite i s e) = s"

lemma distinct_chunk_writes: "distinct (chunk_writes nb c)"
  by (cases c) (auto simp: chunk_writes_def distinct_map inj_on_def)

lemma write_start_chunk_writes: "w \<in> set (chunk_writes nb (s, e)) \<Longrightarrow> write_start w = s"
  by (auto simp: chunk_writes_def)

lemma chain_writes_distinct:
  "chain s cs t \<Longrightarrow>
     distinct (concat (map (chunk_writes nb) cs))
   \<and> (\<forall>w\<in>set (concat (map (chunk_writes nb) cs)). s \<le> write_start w)"
proof (induction cs arbitrary: s)
  case Nil
  then show ?case by simp
next
  case (Cons x cs)
  obtain a b where x: "x = (a, b)" by (cases x)
  from Cons.prems x have a: "a = s" "s < b" and ch: "chain b cs t" by auto
  from Cons.IH[OF ch]
  have d: "distinct (concat (map (chunk_writes nb) cs))"
    and lb: "\<And>w. w \<in> set (concat (map (chunk_writes nb) cs)) \<Longrightarrow> b \<le> write_start w"
    by blast+
  have disj: "set (chunk_writes nb (s, b)) \<inter> set (concat (map (chunk_writes nb) cs)) = {}"
  proof (rule ccontr)
    assume "set (chunk_writes nb (s, b)) \<inter> set (concat (map (chunk_writes nb) cs)) \<noteq> {}"
    then obtain w where w: "w \<in> set (chunk_writes nb (s, b))"
      "w \<in> set (concat (map (chunk_writes nb) cs))" by blast
    from write_start_chunk_writes[OF w(1)] lb[OF w(2)] a show False by simp
  qed
  have "s \<le> write_start w" if "w \<in> set (concat (map (chunk_writes nb) (x # cs)))" for w
  proof -
    from that consider "w \<in> set (chunk_writes nb (s, b))"
      | "w \<in> set (concat (map (chunk_writes nb) cs))"
      using x a by auto
    then show ?thesis
    proof cases
      case 1
      then show ?thesis by (simp add: write_start_chunk_writes)
    next
      case 2
      from lb[OF this] a show ?thesis by simp
    qed
  qed
  moreover have "distinct (concat (map (chunk_writes nb) (x # cs)))"
    using d disj distinct_chunk_writes[of nb "(s, b)"] x a by simp
  ultimately show ?case by blast
qed

text \<open>
  A valid object: the background index matrix and the feature-match matrix are there
  with one row per region, the indices are region indices, and there is one feature name
  per feature and one cell name per cell.
\<close>

definition valid_adata :: "anndata \<Rightarrow> bool" where
  "valid_adata adata =
     (case (varm_bg_peaks adata, varm_motif_match adata, uns_motif_name adata) of
        (Some bg_peaks, Some M, Some motif_name) \<Rightarrow>
            nrows bg_peaks = ncols (matrix_X adata)
          \<and> nrows M = ncols (matrix_X adata)
          \<and> indices_ok bg_peaks M
          \<and> length motif_name = ncols M
          \<and> length (obs_names adata) = n_obs adata
      | _ \<Rightarrow> False)"

definition valid_input :: "pydata \<Rightarrow> bool" where
  "valid_input data = (case select_adata data of Some adata \<Rightarrow> valid_adata adata | None \<Rightarrow> False)"

lemma compute_expectation_shapes:
  "compute_expectation C rt = (eo, ev) \<Longrightarrow>
     nrows eo = nrows C \<and> ncols eo = 1 \<and> nrows ev = 1 \<and> ncols ev = ncols C"
  by (auto simp: compute_expectation_def Let_def)

lemma run_chunks_valid:
  assumes valid: "valid_adata adata"
    and bg: "varm_bg_peaks adata = Some bg_peaks"
    and mm: "varm_motif_match adata = Some M"
    and ce: "compute_expectation (matrix_X adata) rt = (eo, ev)"
    and cs: "chunk_ranges (n_obs adata) chunk_size = Inr cs" "chain 0 cs (n_obs adata)"
  shows "run_chunks adata bg_peaks eo ev chunk_size gpu =
     Inr (full_dev M (matrix_X adata) eo ev,
          map (\<lambda>i. full_dev (bg_motif_match bg_peaks M i) (matrix_X adata) eo ev)
            [0..<ncols bg_peaks],
          concat (map (chunk_writes (ncols bg_peaks)) cs))"
proof -
  let ?C = "matrix_X adata"
  obtain motif_name where nm: "uns_motif_name adata = Some motif_name"
    using valid bg mm by (auto simp: valid_adata_def split: option.splits)
  from valid bg mm nm have v: "nrows bg_peaks = ncols ?C" "nrows M = ncols ?C"
    "indices_ok bg_peaks M" "length motif_name = ncols M"
    by (simp_all add: valid_adata_def)
  from compute_expectation_shapes[OF ce]
  have sh: "ncols ev = ncols ?C" "ncols eo = nrows ev" "nrows eo = nrows ?C" by simp_all
  have init_obs: "zeros (nrows ?C) (ncols M) = filled_to 0 (full_dev M ?C eo ev)"
    by (simp add: filled_to_zero)
  have init_bg: "replicate (ncols bg_peaks) (zeros (nrows ?C) (length motif_name)) =
                 bg_state bg_peaks M ?C eo ev 0 0 0"
    by (simp add: bg_state_def filled_to_zero v(4) map_replicate_const)
  have fin_bg: "bg_state bg_peaks M ?C eo ev 0 (nrows ?C) (nrows ?C) =
      map (\<lambda>i. full_dev (bg_motif_match bg_peaks M i) ?C eo ev) [0..<ncols bg_peaks]"
    by (simp add: bg_state_def filled_to_full_dev)
  note loop = outer_loop[OF v(3) v(1) v(2) sh, of 0 cs "nrows ?C" gpu "[]"]
  show ?thesis
    using cs loop
    by (simp add: run_chunks_def mm nm chunked_X_def bind_res_def init_obs init_bg fin_bg
        filled_to_full_dev n_obs_def Let_def)
qed


section \<open>Chunk invariance and the sequence of slice assignments\<close>

lemma compute_deviations_valid:
  assumes sel: "select_adata data = Some adata"
    and valid: "valid_adata adata"
    and k: "0 < chunk_size"
    and bg: "varm_bg_peaks adata = Some bg_peaks"
    and mm: "varm_motif_match adata = Some M"
    and nm: "uns_motif_name adata = Some motif_name"
    and ce: "compute_expectation (matrix_X adata) gpu = (eo, ev)"
  shows "compute_deviations data n_jobs chunk_size gpu =
     ([''computing expectation reads per cell and peak...'',
       ''computing observed + bg motif deviations...''],
      bind_res (normalise gpu (n_obs adata) (length motif_name)
                  (full_dev M (matrix_X adata) eo ev)
                  (map (\<lambda>i. full_dev (bg_motif_match bg_peaks M i) (matrix_X adata) eo ev)
                     [0..<ncols bg_peaks]))
        (assemble adata))"
proof -
  from chunk_ranges_chain[OF k, of "n_obs adata"]
  obtain cs where cs: "chunk_ranges (n_obs adata) chunk_size = Inr cs" "chain 0 cs (n_obs adata)"
    by blast
  note run = run_chunks_valid[OF valid bg mm ce cs, of gpu]
  show ?thesis
    by (simp add: compute_deviations_def sel bg ce run bind_res_def nm)
qed

lemma normalise_assemble_valid:
  assumes valid: "valid_adata adata"
    and nm: "uns_motif_name adata = Some motif_name"
    and shape: "nrows obs_dev = n_obs adata" "ncols obs_dev = length motif_name"
  shows "\<exists>Z. bind_res (normalise gpu (n_obs adata) (length motif_name) obs_dev bg_dev)
               (assemble adata) =
             Inr \<lparr>dev_X = Z, dev_obs_names = obs_names adata, dev_var_names = motif_name\<rparr>
           \<and> nrows Z = n_obs adata \<and> ncols Z = length motif_name"
proof -
  have len: "length (obs_names adata) = n_obs adata"
    using valid nm by (auto simp: valid_adata_def split: option.splits)
  show ?thesis
    by (simp add: normalise_shaped[OF shape] bind_res_def assemble_def nm len)
qed

text \<open>
  C7. On a valid input, runs with two positive chunk sizes return the same log and
  the same result, and the result is an object, not an exception.
\<close>

theorem chunk_size_invariance:
  assumes "valid_input data" and "0 < k1" and "0 < k2"
  shows "compute_deviations data n_jobs k1 gpu = compute_deviations data n_jobs k2 gpu
       \<and> (\<exists>r. snd (compute_deviations data n_jobs k1 gpu) = Inr r)"
proof -
  from assms(1) obtain adata where sel: "select_adata data = Some adata"
    and valid: "valid_adata adata"
    by (auto simp: valid_input_def split: option.splits)
  from valid obtain bg_peaks M motif_name where f: "varm_bg_peaks adata = Some bg_peaks"
    "varm_motif_match adata = Some M" "uns_motif_name adata = Some motif_name"
    and len: "length motif_name = ncols M"
    by (auto simp: valid_adata_def split: option.splits)
  obtain eo ev where ce: "compute_expectation (matrix_X adata) gpu = (eo, ev)"
    by (cases "compute_expectation (matrix_X adata) gpu")
  note r1 = compute_deviations_valid[OF sel valid assms(2) f ce, of n_jobs]
  note r2 = compute_deviations_valid[OF sel valid assms(3) f ce, of n_jobs]
  from normalise_assemble_valid[OF valid f(3), of "full_dev M (matrix_X adata) eo ev" gpu
      "map (\<lambda>i. full_dev (bg_motif_match bg_peaks M i) (matrix_X adata) eo ev)
         [0..<ncols bg_peaks]"]
  have "\<exists>r. snd (compute_deviations data n_jobs k1 gpu) = Inr r"
    by (auto simp: r1 n_obs_def len)
  with r1 r2 show ?thesis by simp
qed

theorem chunk_size_invariance_witness:
  "let data = AnnDataObj \<lparr>matrix_X = Mat 2 2 [[Fin 1, Fin 0], [Fin 0, Fin 1]],
                  obs_names = [''cell0'', ''cell1''],
                  varm_bg_peaks = Some (Mat 2 2 [[0, 1], [1, 0]]),
                  varm_motif_match = Some (Mat 2 1 [[Fin 1], [Fin 0]]),
                  uns_motif_name = Some [''motif'']\<rparr>
   in valid_input data \<and> (0::int) < 1 \<and> (0::int) < 10000
    \<and> compute_deviations data (- 1) 1 False = compute_deviations data (- 1) 10000 False
    \<and> snd (compute_deviations data (- 1) 1 False) =
        Inr \<lparr>dev_X = Mat 2 1 [[Fin 1], [Fin (- 1)]],
             dev_obs_names = [''cell0'', ''cell1''], dev_var_names = [''motif'']\<rparr>"
proof -
  let ?data = "AnnDataObj \<lparr>matrix_X = Mat 2 2 [[Fin 1, Fin 0], [Fin 0, Fin 1]],
                  obs_names = [''cell0'', ''cell1''],
                  varm_bg_peaks = Some (Mat 2 2 [[0, 1], [1, 0]]),
                  varm_motif_match = Some (Mat 2 1 [[Fin 1], [Fin 0]]),
                  uns_motif_name = Some [''motif'']\<rparr>"
  have v: "valid_input ?data"
    by (simp add: valid_input_def valid_adata_def select_adata_def indices_ok_def column_def
        n_obs_def entry_def upt_conv_Cons)
  from chunk_size_invariance [OF v, of 1 10000 "- 1" False]
  have eq: "compute_deviations ?data (- 1) 1 False = compute_deviations ?data (- 1) 10000 False"
    by simp
  show ?thesis
    using v eq host_run_example by (simp add: Let_def)
qed


lemma count_list_distinct: "distinct xs \<Longrightarrow> x \<in> set xs \<Longrightarrow> count_list xs x = 1"
  by (induction xs) auto

lemma obs_write_in_chunk: "ObsWrite (fst c) (snd c) \<in> set (chunk_writes nb c)"
  by (cases c) (simp add: chunk_writes_def)

lemma bg_write_in_chunk: "i < nb \<Longrightarrow> BgWrite i (fst c) (snd c) \<in> set (chunk_writes nb c)"
  by (cases c) (simp add: chunk_writes_def)

lemma slice_rows_primitive_obs:
  assumes "nrows M = ncols C" "ncols ev = ncols C" "ncols eo = nrows ev" "nrows eo = nrows C"
    and "fst c \<le> snd c" "snd c \<le> nrows C"
  shows "deviation_primitive gpu (M, slice_rows C (fst c) (snd c), slice_rows eo (fst c) (snd c), ev)
         = Inr (slice_rows (full_dev M C eo ev) (fst c) (snd c))"
  using assms by (intro deviation_primitive_slice) simp_all

text \<open>
  C8. On a valid object and with a positive chunk size, the chunks form a chain of
  non-empty, contiguous, increasing row ranges from 0 to the number of cells, so that
  every row lies in exactly one chunk; the run returns, and the slice assignments it
  executed are, chunk after chunk, the one into \<^verbatim>\<open>obs_dev\<close> and the one into \<^verbatim>\<open>bg_dev\<close> for
  each background sample, each of them exactly once; at the end every such slice holds
  what the deviation primitive returns for that chunk (and that sample).
\<close>

theorem chunk_writes_exactly_once:
  assumes valid: "valid_adata adata"
    and k: "0 < chunk_size"
    and bg: "varm_bg_peaks adata = Some bg_peaks"
    and mm: "varm_motif_match adata = Some M"
    and ce: "compute_expectation (matrix_X adata) gpu = (eo, ev)"
  shows "\<exists>cs obs_dev bg_dev writes.
      chunk_ranges (n_obs adata) chunk_size = Inr cs
    \<and> chain 0 cs (n_obs adata)
    \<and> (\<forall>r<n_obs adata. \<exists>!c. c \<in> set cs \<and> fst c \<le> r \<and> r < snd c)
    \<and> run_chunks adata bg_peaks eo ev chunk_size gpu = Inr (obs_dev, bg_dev, writes)
    \<and> length bg_dev = ncols bg_peaks
    \<and> writes = concat (map (chunk_writes (ncols bg_peaks)) cs)
    \<and> distinct writes
    \<and> (\<forall>c\<in>set cs.
          count_list writes (ObsWrite (fst c) (snd c)) = 1
        \<and> deviation_primitive gpu
             (M, slice_rows (matrix_X adata) (fst c) (snd c), slice_rows eo (fst c) (snd c), ev)
            = Inr (slice_rows obs_dev (fst c) (snd c))
        \<and> (\<forall>i<ncols bg_peaks.
              count_list writes (BgWrite i (fst c) (snd c)) = 1
            \<and> (\<exists>Mi. take_rows M (column bg_peaks i) = Inr Mi
                  \<and> deviation_primitive gpu
                       (Mi, slice_rows (matrix_X adata) (fst c) (snd c),
                        slice_rows eo (fst c) (snd c), ev)
                      = Inr (slice_rows (bg_dev ! i) (fst c) (snd c)))))"
proof -
  let ?C = "matrix_X adata"
  let ?nb = "ncols bg_peaks"
  from chunk_ranges_chain[OF k, of "n_obs adata"]
  obtain cs where cs: "chunk_ranges (n_obs adata) chunk_size = Inr cs" "chain 0 cs (n_obs adata)"
    by blast
  let ?obs = "full_dev M ?C eo ev"
  let ?bgs = "map (\<lambda>i. full_dev (bg_motif_match bg_peaks M i) ?C eo ev) [0..<?nb]"
  let ?ws = "concat (map (chunk_writes ?nb) cs)"
  note run = run_chunks_valid[OF valid bg mm ce cs, of gpu]
  from valid bg mm have v: "nrows bg_peaks = ncols ?C" "nrows M = ncols ?C"
    "indices_ok bg_peaks M"
    by (auto simp: valid_adata_def split: option.splits)
  from compute_expectation_shapes[OF ce]
  have sh: "ncols ev = ncols ?C" "ncols eo = nrows ev" "nrows eo = nrows ?C" by simp_all
  have cover: "\<forall>r<n_obs adata. \<exists>!c. c \<in> set cs \<and> fst c \<le> r \<and> r < snd c"
    using chain_cover[OF cs(2)] by simp
  have dist: "distinct ?ws"
    using chain_writes_distinct[OF cs(2), of ?nb] by blast
  have per_chunk:
    "count_list ?ws (ObsWrite (fst c) (snd c)) = 1
      \<and> deviation_primitive gpu
           (M, slice_rows ?C (fst c) (snd c), slice_rows eo (fst c) (snd c), ev)
          = Inr (slice_rows ?obs (fst c) (snd c))
      \<and> (\<forall>i<?nb.
            count_list ?ws (BgWrite i (fst c) (snd c)) = 1
          \<and> (\<exists>Mi. take_rows M (column bg_peaks i) = Inr Mi
                \<and> deviation_primitive gpu
                     (Mi, slice_rows ?C (fst c) (snd c), slice_rows eo (fst c) (snd c), ev)
                    = Inr (slice_rows (?bgs ! i) (fst c) (snd c))))"
    if c: "c \<in> set cs" for c
  proof -
    from chain_bounds[OF cs(2) c] have b: "fst c \<le> snd c" "snd c \<le> nrows ?C"
      by (simp_all add: n_obs_def)
    have mem_obs: "ObsWrite (fst c) (snd c) \<in> set ?ws"
      using c obs_write_in_chunk[of c ?nb] by auto
    have mem_bg: "BgWrite i (fst c) (snd c) \<in> set ?ws" if "i < ?nb" for i
      using c bg_write_in_chunk[OF that, of c] by auto
    have cnt: "count_list ?ws w = 1" if "w \<in> set ?ws" for w
      using dist that by (rule count_list_distinct)
    have bgp: "\<exists>Mi. take_rows M (column bg_peaks i) = Inr Mi
                \<and> deviation_primitive gpu
                     (Mi, slice_rows ?C (fst c) (snd c), slice_rows eo (fst c) (snd c), ev)
                    = Inr (slice_rows (?bgs ! i) (fst c) (snd c))"
      if i: "i < ?nb" for i
    proof -
      have "deviation_primitive gpu
              (bg_motif_match bg_peaks M i, slice_rows ?C (fst c) (snd c),
               slice_rows eo (fst c) (snd c), ev)
            = Inr (slice_rows (full_dev (bg_motif_match bg_peaks M i) ?C eo ev) (fst c) (snd c))"
        using v sh b by (intro slice_rows_primitive_obs) simp_all
      with take_rows_ok[OF v(3) i] i show ?thesis by simp
    qed
    show ?thesis
      using cnt[OF mem_obs] cnt[OF mem_bg] bgp
        slice_rows_primitive_obs[OF v(2) sh b, of gpu]
      by simp
  qed
  show ?thesis
    using cs cover run dist per_chunk
    by (intro exI[of _ cs] exI[of _ ?obs] exI[of _ ?bgs] exI[of _ ?ws]) simp
qed


theorem chunk_writes_exactly_once_witness:
  "let adata = \<lparr>matrix_X = Mat 2 2 [[Fin 1, Fin 0], [Fin 0, Fin 1]],
                  obs_names = [''cell0'', ''cell1''],
                  varm_bg_peaks = Some (Mat 2 2 [[0, 1], [1, 0]]),
                  varm_motif_match = Some (Mat 2 1 [[Fin 1], [Fin 0]]),
                  uns_motif_name = Some [''motif'']\<rparr>;
       bg_peaks = Mat 2 2 [[0, 1], [1, 0]];
       eo = Mat 2 1 [[Fin 1], [Fin 1]];
       ev = Mat 1 2 [[Fin (1 / 2), Fin (1 / 2)]]
   in valid_adata adata \<and> (0::int) < 1
    \<and> varm_bg_peaks adata = Some bg_peaks
    \<and> varm_motif_match adata = Some (Mat 2 1 [[Fin 1], [Fin 0]])
    \<and> compute_expectation (matrix_X adata) False = (eo, ev)
    \<and> chunk_ranges (n_obs adata) 1 = Inr [(0, 1), (1, 2)]
    \<and> (\<exists>obs_dev bg_dev.
          run_chunks adata bg_peaks eo ev 1 False =
            Inr (obs_dev, bg_dev,
                 [ObsWrite 0 1, BgWrite 0 0 1, BgWrite 1 0 1,
                  ObsWrite 1 2, BgWrite 0 1 2, BgWrite 1 1 2]))"
proof -
  let ?adata = "\<lparr>matrix_X = Mat 2 2 [[Fin 1, Fin 0], [Fin 0, Fin 1]],
                  obs_names = [''cell0'', ''cell1''],
                  varm_bg_peaks = Some (Mat 2 2 [[0, 1], [1, 0]]),
                  varm_motif_match = Some (Mat 2 1 [[Fin 1], [Fin 0]]),
                  uns_motif_name = Some [''motif'']\<rparr>"
  let ?bg = "Mat 2 2 [[0, 1], [1, 0 :: int]]"
  let ?M = "Mat 2 1 [[Fin 1], [Fin 0]]"
  let ?eo = "Mat 2 1 [[Fin 1], [Fin 1]]"
  let ?ev = "Mat 1 2 [[Fin (1 / 2), Fin (1 / 2)]]"
  have v: "valid_adata ?adata"
    by (simp add: valid_adata_def indices_ok_def column_def n_obs_def entry_def upt_conv_Cons)
  have ce: "compute_expectation (matrix_X ?adata) False = (?eo, ?ev)"
    by (simp add: compute_expectation_def tabulate_def entry_def upt_conv_Cons Let_def)
  have cr: "chunk_ranges (n_obs ?adata) 1 = Inr [(0, 1), (1, 2)]"
    by (simp add: chunk_ranges_def n_obs_def numeral_2_eq_2)
  from chunk_writes_exactly_once [of ?adata 1 ?bg ?M False ?eo ?ev, OF v _ _ _ ce]
  obtain cs obs_dev bg_dev writes where
    r: "chunk_ranges (n_obs ?adata) 1 = Inr cs"
      "run_chunks ?adata ?bg ?eo ?ev 1 False = Inr (obs_dev, bg_dev, writes)"
      "writes = concat (map (chunk_writes (ncols ?bg)) cs)"
    by auto
  from r(1) cr have cs: "cs = [(0, 1), (1, 2)]" by simp
  have "writes = [ObsWrite 0 1, BgWrite 0 0 1, BgWrite 1 0 1,
                  ObsWrite 1 2, BgWrite 0 1 2, BgWrite 1 1 2]"
    by (simp add: r(3) cs chunk_writes_def upt_conv_Cons)
  with r(2) v ce cr show ?thesis
    by (simp add: Let_def)
qed

end
